theory Spec2Isabelle
  imports Complex_Main
begin

section \<open>Values shared by the environment and the estimators\<close>

text \<open>
  Python and torch exceptions are values. The external collaborators (the feature
  extractor, torchvision's transforms, the missing \<^verbatim>\<open>utils\<close> module) may raise any
  of them.
\<close>

datatype error = TypeError | AttributeError | IndexError | RuntimeError

text \<open>
  A numpy array or torch tensor: its shape and its entries in row-major order. Entries
  are real numbers; rounding of machine floats is outside the model.
\<close>

record ndarray =
  shape :: "nat list"
  data :: "real list"

text \<open>
  A bounding box is the Python list \<^verbatim>\<open>[xmin, ymin, xmax, ymax]\<close>. The environment only
  ever builds it with exactly four entries, so it is a 4-tuple in that order.
\<close>

type_synonym bbox = "real \<times> real \<times> real \<times> real"

section \<open>The environment: \<^verbatim>\<open>DetectionEnv\<close> of \<^verbatim>\<open>Experiments/RL/env.py\<close>\<close>

text \<open>
  The attributes of a \<^verbatim>\<open>DetectionEnv\<close> object. \<^verbatim>\<open>actions_history\<close> is a Python list of
  references to row objects: the field holds the addresses, and \<open>heap\<close> maps an address
  to the row stored there, so that two slots holding the same address are the same
  object. \<open>next_addr\<close> is the next unused address.
\<close>

record env =
  image_arr :: ndarray
  original_image :: ndarray
  target_box :: bbox
  height :: nat
  width :: nat
  target_size :: "nat \<times> nat"
  actions_history :: "nat list"
  heap :: "nat \<Rightarrow> real list"
  next_addr :: nat
  num_episodes :: int
  bbox :: bbox
  feature_extractor :: "ndarray \<Rightarrow> error + ndarray"
  transform :: ndarray
  observation_space :: nat
  terminated :: bool
  truncated :: bool
  max_steps :: int
  step_count :: int
  alpha :: real
  nu :: real
  cumulative_reward :: real
  threshold :: real

text \<open>\<^verbatim>\<open>rewrap(coordinate, size)\<close>: \<^verbatim>\<open>min(max(0, coordinate), size)\<close>.\<close>

definition rewrap :: "real \<Rightarrow> real \<Rightarrow> real" where
  "rewrap coordinate size_px = min (max 0 coordinate) size_px"

text \<open>
  \<^verbatim>\<open>transform_action(action)\<close>: the box is read as \<^verbatim>\<open>bbox[0], bbox[2], bbox[1], bbox[3]\<close>,
  moved or resized by the \<^verbatim>\<open>if/elif\<close> chain (no branch for any other action), and every
  coordinate is clamped. The attribute \<^verbatim>\<open>self.bbox\<close> is not assigned here.
\<close>

definition transform_action :: "env \<Rightarrow> nat \<Rightarrow> bbox" where
  "transform_action s action =
     (case bbox s of (xmin, ymin, xmax, ymax) \<Rightarrow>
        let alpha_h = alpha s * (ymax - ymin);
            alpha_w = alpha s * (xmax - xmin);
            (xmin', xmax', ymin', ymax') =
              (if action = 0 then (xmin + alpha_w, xmax + alpha_w, ymin, ymax)
               else if action = 1 then (xmin - alpha_w, xmax - alpha_w, ymin, ymax)
               else if action = 2 then (xmin, xmax, ymin - alpha_h, ymax - alpha_h)
               else if action = 3 then (xmin, xmax, ymin + alpha_h, ymax + alpha_h)
               else if action = 4 then (xmin - alpha_w, xmax + alpha_w, ymin - alpha_h, ymax + alpha_h)
               else if action = 5 then (xmin + alpha_w, xmax - alpha_w, ymin + alpha_h, ymax - alpha_h)
               else if action = 6 then (xmin, xmax, ymin + alpha_h, ymax - alpha_h)
               else if action = 7 then (xmin + alpha_w, xmax - alpha_w, ymin, ymax)
               else (xmin, xmax, ymin, ymax))
        in (rewrap xmin' (real (width s)), rewrap ymin' (real (height s)),
            rewrap xmax' (real (width s)), rewrap ymax' (real (height s))))"

text \<open>The box lies inside an image of the given width and height.\<close>

definition within_image :: "bbox \<Rightarrow> nat \<Rightarrow> nat \<Rightarrow> bool" where
  "within_image b w h =
     (case b of (xmin, ymin, xmax, ymax) \<Rightarrow>
        0 \<le> xmin \<and> xmin \<le> real w \<and> 0 \<le> xmax \<and> xmax \<le> real w \<and>
        0 \<le> ymin \<and> ymin \<le> real h \<and> 0 \<le> ymax \<and> ymax \<le> real h)"


subsection \<open>External collaborators\<close>

text \<open>
  What a callee can be handed as a box argument: a bounding box, or the environment
  object itself (which is what the first parameter of a function declared without
  \<^verbatim>\<open>self\<close> receives when it is called as a method).
\<close>

datatype pyval = Box bbox | Env_object env

text \<open>
  The functions the environment calls and \<^verbatim>\<open>src/\<close> does not define; each may raise.
  \<^item> \<open>transform_input\<close>: torchvision's \<^verbatim>\<open>ToPILImage\<close>, \<^verbatim>\<open>Resize\<close>, \<^verbatim>\<open>ToTensor\<close>
    pipeline of \<^verbatim>\<open>models.transform_input(image, target_size)\<close>;
  \<^item> \<open>iou\<close>, \<open>recall\<close>: \<^verbatim>\<open>utils.iou\<close>, \<^verbatim>\<open>utils.recall\<close> (the module is not in \<^verbatim>\<open>src/\<close>);
  \<^item> \<open>nonzero_len\<close>: \<^verbatim>\<open>len(torch.nonzero(self.actions_history))\<close>, given the rows;
  \<^item> \<open>view_flat\<close>: \<^verbatim>\<open>self.actions_history.view(1,-1).type(dtype)\<close>, given the rows.
\<close>

record ext =
  transform_input :: "ndarray \<Rightarrow> nat \<times> nat \<Rightarrow> error + ndarray"
  iou :: "pyval \<Rightarrow> pyval \<Rightarrow> error + real"
  recall :: "pyval \<Rightarrow> pyval \<Rightarrow> error + real"
  nonzero_len :: "real list list \<Rightarrow> error + nat"
  view_flat :: "real list list \<Rightarrow> error + real list"

subsection \<open>Rewards\<close>

text \<open>
  \<^verbatim>\<open>def calculate_reward(current_state, previous_state, target_box, reward_function=iou)\<close>:
  three positional parameters and no \<^verbatim>\<open>self\<close>. Returns \<open>-1\<close> when the difference is
  \<open>\<le> 0\<close>, else \<open>1\<close>.
\<close>

definition calculate_reward :: "ext \<Rightarrow> pyval \<Rightarrow> pyval \<Rightarrow> pyval \<Rightarrow> error + real" where
  "calculate_reward E current_state previous_state target_box' =
     (case iou E current_state target_box' of
        Inl e \<Rightarrow> Inl e
      | Inr iou_current \<Rightarrow>
          (case iou E previous_state target_box' of
             Inl e \<Rightarrow> Inl e
           | Inr iou_previous \<Rightarrow>
               let reward = iou_current - iou_previous
               in if reward \<le> 0 then Inr (- 1) else Inr 1))"

text \<open>\<^verbatim>\<open>calculate_trigger_reward(self, current_state, target_box)\<close>.\<close>

definition calculate_trigger_reward :: "ext \<Rightarrow> env \<Rightarrow> pyval \<Rightarrow> pyval \<Rightarrow> error + real" where
  "calculate_trigger_reward E s current_state target_box' =
     (case iou E current_state target_box' of
        Inl e \<Rightarrow> Inl e
      | Inr iou_current \<Rightarrow>
          let reward = iou_current
          in if threshold s \<le> reward then Inr (nu s) else Inr (- 1 * nu s))"

subsection \<open>Observation\<close>

text \<open>\<^verbatim>\<open>t.unsqueeze(0)\<close>, \<^verbatim>\<open>t.view(1, -1)\<close> and \<^verbatim>\<open>torch.cat((a, b), 1)\<close> on row vectors.\<close>

definition unsqueeze0 :: "ndarray \<Rightarrow> ndarray" where
  "unsqueeze0 t = t\<lparr>shape := 1 # shape t\<rparr>"

definition view_1_m1 :: "ndarray \<Rightarrow> ndarray" where
  "view_1_m1 t = t\<lparr>shape := [1, length (data t)]\<rparr>"

definition cat1 :: "ndarray \<Rightarrow> real list \<Rightarrow> ndarray" where
  "cat1 a b = \<lparr>shape = [1, length (data a) + length b], data = data a @ b\<rparr>"

text \<open>\<^verbatim>\<open>get_features(image)\<close>: transform, add the batch dimension, run the extractor.\<close>

definition get_features :: "ext \<Rightarrow> env \<Rightarrow> ndarray \<Rightarrow> error + ndarray" where
  "get_features E s image' =
     (case transform_input E image' (target_size s) of
        Inl e \<Rightarrow> Inl e
      | Inr image'' \<Rightarrow> feature_extractor s (unsqueeze0 image''))"

text \<open>The rows the history list refers to, slot by slot.\<close>

definition rows :: "env \<Rightarrow> real list list" where
  "rows s = map (heap s) (actions_history s)"

text \<open>
  \<^verbatim>\<open>get_state()\<close>: the image is transformed here and again inside \<^verbatim>\<open>get_features\<close>; the
  features are flattened and concatenated with the flattened action history.
\<close>

definition get_state :: "ext \<Rightarrow> env \<Rightarrow> error + ndarray" where
  "get_state E s =
     (case transform_input E (image_arr s) (target_size s) of
        Inl e \<Rightarrow> Inl e
      | Inr image' \<Rightarrow>
          (case get_features E s image' of
             Inl e \<Rightarrow> Inl e
           | Inr features \<Rightarrow>
               (case view_flat E (rows s) of
                  Inl e \<Rightarrow> Inl e
                | Inr action_history \<Rightarrow> Inr (cat1 (view_1_m1 features) action_history))))"

subsection \<open>Action history\<close>

text \<open>
  The loop \<^verbatim>\<open>for i in range(8,0,-1): self.actions_history[i][:] = self.actions_history[i-1][:]\<close>:
  \<open>shift_loop 8\<close> runs \<open>i = 8, 7, ..., 1\<close>. A slice assignment replaces the contents of the
  row object at slot \<open>i\<close> by a copy of the contents of the row object at slot \<open>i - 1\<close>.
\<close>

fun shift_loop :: "nat \<Rightarrow> nat list \<Rightarrow> (nat \<Rightarrow> real list) \<Rightarrow> nat \<Rightarrow> real list" where
  "shift_loop 0 hist h = h"
| "shift_loop (Suc k) hist h = shift_loop k hist (h(hist ! Suc k := h (hist ! k)))"

text \<open>
  \<^verbatim>\<open>update_history(action)\<close>. \<^verbatim>\<open>action_vector[action] = 1\<close> raises IndexError on a
  9-entry tensor when \<open>action \<ge> 9\<close>; list indexing raises IndexError out of range. In the
  append branch the write goes to the row object that slot \<open>size_history_vector\<close> refers to.
\<close>

definition update_history :: "ext \<Rightarrow> env \<Rightarrow> nat \<Rightarrow> (error + nat list) \<times> env" where
  "update_history E s action =
     (if 9 \<le> action then (Inl IndexError, s)
      else
        let action_vector = (replicate 9 (0::real))[action := 1] in
        (case nonzero_len E (rows s) of
           Inl e \<Rightarrow> (Inl e, s)
         | Inr size_history_vector \<Rightarrow>
             if size_history_vector < 9 then
               (if length (actions_history s) \<le> size_history_vector then (Inl IndexError, s)
                else
                  let a = actions_history s ! size_history_vector in
                  if length (heap s a) \<le> action then (Inl IndexError, s)
                  else
                    let s' = s\<lparr>heap := (heap s)(a := (heap s a)[action := 1])\<rparr>
                    in (Inr (actions_history s'), s'))
             else
               (if length (actions_history s) < 9 then (Inl IndexError, s)
                else
                  let h = shift_loop 8 (actions_history s) (heap s);
                      s' = s\<lparr>heap := h(actions_history s ! 0 := action_vector)\<rparr>
                  in (Inr (actions_history s'), s'))))"

text \<open>
  The assignment \<^verbatim>\<open>self.actions_history[slot][k] = v\<close> on its own (line 199 is this
  statement with \<open>v = 1\<close>): it writes into the row object the slot refers to.
\<close>

definition set_entry :: "env \<Rightarrow> nat \<Rightarrow> nat \<Rightarrow> real \<Rightarrow> error + env" where
  "set_entry s slot k v =
     (if length (actions_history s) \<le> slot then Inl IndexError
      else
        let a = actions_history s ! slot in
        if length (heap s a) \<le> k then Inl IndexError
        else Inr (s\<lparr>heap := (heap s)(a := (heap s a)[k := v])\<rparr>))"

subsection \<open>Info, construction, reset and step\<close>

text \<open>
  \<^verbatim>\<open>get_info()\<close>: the dictionary echoes attributes of the object (kept here as the
  object's state) and adds \<^verbatim>\<open>iou(self.bbox, self.target_box)\<close> and
  \<^verbatim>\<open>recall(self.bbox, self.target_box)\<close>, evaluated in that order.
\<close>

record info =
  info_env :: env
  info_iou :: real
  info_recall :: real

definition get_info :: "ext \<Rightarrow> env \<Rightarrow> error + info" where
  "get_info E s =
     (case iou E (Box (bbox s)) (Box (target_box s)) of
        Inl e \<Rightarrow> Inl e
      | Inr i \<Rightarrow>
          (case recall E (Box (bbox s)) (Box (target_box s)) of
             Inl e \<Rightarrow> Inl e
           | Inr r \<Rightarrow> Inr \<lparr>info_env = s, info_iou = i, info_recall = r\<rparr>))"

text \<open>
  \<^verbatim>\<open>__init__\<close>. \<^verbatim>\<open>image.shape[0]\<close> and \<^verbatim>\<open>image.shape[1]\<close> raise IndexError on an array of
  fewer than two dimensions. \<^verbatim>\<open>[[100]*9]*20\<close> builds one row object and a list of twenty
  references to it. \<^verbatim>\<open>feature_len\<close> is \<^verbatim>\<open>shape[0]\<close> of the extractor's output and
  \<^verbatim>\<open>history_len\<close> is \<^verbatim>\<open>len(self.actions_history)\<close>.
\<close>

definition init ::
  "ext \<Rightarrow> ndarray \<Rightarrow> ndarray \<Rightarrow> bbox \<Rightarrow> int \<Rightarrow> real \<Rightarrow> real \<Rightarrow> real \<Rightarrow>
   (ndarray \<Rightarrow> error + ndarray) \<Rightarrow> nat \<times> nat \<Rightarrow> error + env" where
  "init E image' original_image' target_box' max_steps' alpha' nu' threshold'
        feature_extractor' target_size' =
     (case shape image' of
        h # w # _ \<Rightarrow>
          (case transform_input E image' target_size' of
             Inl e \<Rightarrow> Inl e
           | Inr tr \<Rightarrow>
               let s = \<lparr>image_arr = image', original_image = original_image',
                        target_box = target_box', height = h, width = w,
                        target_size = target_size',
                        actions_history = replicate 20 0,
                        heap = (\<lambda>_. [])(0 := replicate 9 100), next_addr = 1,
                        num_episodes = 0, bbox = (0, 0, real w, real h),
                        feature_extractor = feature_extractor', transform = tr,
                        observation_space = 0, terminated = False, truncated = False,
                        max_steps = max_steps', step_count = 0, alpha = alpha', nu = nu',
                        cumulative_reward = 0, threshold = threshold'\<rparr>
               in (case get_features E s image' of
                     Inl e \<Rightarrow> Inl e
                   | Inr features \<Rightarrow>
                       (case shape features of
                          [] \<Rightarrow> Inl IndexError
                        | feature_len # _ \<Rightarrow>
                            let history_len = length (actions_history s)
                            in Inr (s\<lparr>observation_space := feature_len + history_len\<rparr>))))
      | _ \<Rightarrow> Inl IndexError)"

text \<open>
  \<^verbatim>\<open>reset(...)\<close> assigns attribute after attribute, so an exception leaves the
  assignments made before it. The assignments are those of the source, in its order;
  \<^verbatim>\<open>self.terminated\<close> is not among them. It ends with \<^verbatim>\<open>return self.get_state()\<close>.
\<close>

definition reset ::
  "ext \<Rightarrow> env \<Rightarrow> ndarray \<Rightarrow> ndarray \<Rightarrow> bbox \<Rightarrow> int \<Rightarrow> real \<Rightarrow> real \<Rightarrow> real \<Rightarrow>
   (ndarray \<Rightarrow> error + ndarray) \<Rightarrow> nat \<times> nat \<Rightarrow> (error + ndarray) \<times> env" where
  "reset E s image' original_image' target_box' max_steps' alpha' nu' threshold'
         feature_extractor' target_size' =
     (let s1 = s\<lparr>image_arr := image', original_image := original_image',
                 target_box := target_box'\<rparr>
      in case shape image' of
           [] \<Rightarrow> (Inl IndexError, s1)
         | [h] \<Rightarrow> (Inl IndexError, s1\<lparr>height := h\<rparr>)
         | h # w # _ \<Rightarrow>
             let s2 = s1\<lparr>height := h, width := w, target_size := target_size',
                         max_steps := max_steps', step_count := 0, alpha := alpha',
                         nu := nu', cumulative_reward := 0, truncated := False,
                         threshold := threshold',
                         actions_history := replicate 20 (next_addr s),
                         heap := (heap s)(next_addr s := replicate 9 100),
                         next_addr := Suc (next_addr s),
                         num_episodes := 0, bbox := (0, 0, real w, real h),
                         feature_extractor := feature_extractor'\<rparr>
             in (case transform_input E image' target_size' of
                   Inl e \<Rightarrow> (Inl e, s2)
                 | Inr tr \<Rightarrow> let s3 = s2\<lparr>transform := tr\<rparr> in (get_state E s3, s3)))"

text \<open>
  \<^verbatim>\<open>step(action)\<close>, lines 389 to 395: the geometric branch assigns \<^verbatim>\<open>self.bbox\<close> first
  and then calls \<^verbatim>\<open>self.calculate_reward(self.bbox, self.target_box)\<close>: bound as a method,
  the object is the first argument, the already updated box the second, the target the
  third. The trigger branch computes its reward and then sets \<^verbatim>\<open>self.terminated\<close>.
\<close>

definition apply_action :: "ext \<Rightarrow> env \<Rightarrow> nat \<Rightarrow> (error + real) \<times> env" where
  "apply_action E s1 action =
     (if action < 8 then
        let s2 = s1\<lparr>bbox := transform_action s1 action\<rparr>
        in (calculate_reward E (Env_object s2) (Box (bbox s2)) (Box (target_box s2)), s2)
      else
        (case calculate_trigger_reward E s1 (Box (bbox s1)) (Box (target_box s1)) of
           Inl e \<Rightarrow> (Inl e, s1)
         | Inr reward \<Rightarrow> (Inr reward, s1\<lparr>terminated := True\<rparr>)))"

text \<open>
  Lines 397 to 413: accumulate the reward, count the step, re-evaluate both flags under
  \<^verbatim>\<open>if not self.terminated or not self.truncated\<close>, and count the episode when a flag is
  set.
\<close>

definition count_step :: "env \<Rightarrow> real \<Rightarrow> env" where
  "count_step s2 reward =
     (let s3 = s2\<lparr>cumulative_reward := cumulative_reward s2 + reward,
                 step_count := step_count s2 + 1\<rparr>;
          s4 = (if \<not> terminated s3 \<or> \<not> truncated s3
                then s3\<lparr>terminated := (max_steps s3 \<le> step_count s3),
                        truncated := (max_steps s3 \<le> step_count s3)\<rparr>
                else s3)
      in if terminated s4 \<or> truncated s4
         then s4\<lparr>num_episodes := num_episodes s4 + 1\<rparr>
         else s4)"

text \<open>
  \<^verbatim>\<open>step(action)\<close>: the history is updated first; the returned tuple is built left to
  right, \<^verbatim>\<open>get_state()\<close> before \<^verbatim>\<open>get_info()\<close>. An exception leaves the assignments
  made before it.
\<close>

definition step ::
  "ext \<Rightarrow> env \<Rightarrow> nat \<Rightarrow> (error + ndarray \<times> real \<times> bool \<times> bool \<times> info) \<times> env" where
  "step E s action =
     (case update_history E s action of
        (Inl e, s1) \<Rightarrow> (Inl e, s1)
      | (Inr _, s1) \<Rightarrow>
          (case apply_action E s1 action of
             (Inl e, s2) \<Rightarrow> (Inl e, s2)
           | (Inr reward, s2) \<Rightarrow>
               let s5 = count_step s2 reward
               in (case get_state E s5 of
                     Inl e \<Rightarrow> (Inl e, s5)
                   | Inr obs \<Rightarrow>
                       (case get_info E s5 of
                          Inl e \<Rightarrow> (Inl e, s5)
                        | Inr inf0 \<Rightarrow>
                            (Inr (obs, reward, terminated s5, truncated s5, inf0), s5)))))"

text \<open>
  The states a caller can reach: construction, then any sequence of \<^verbatim>\<open>reset\<close> calls
  (on an image, an array of at least two dimensions) and \<^verbatim>\<open>step\<close> calls, whether they
  return or raise.
\<close>

inductive reachable :: "ext \<Rightarrow> env \<Rightarrow> bool" for E :: ext where
  reach_init:
    "init E image' original_image' target_box' max_steps' alpha' nu' threshold'
          feature_extractor' target_size' = Inr s \<Longrightarrow> reachable E s"
| reach_reset:
    "reachable E s \<Longrightarrow> 2 \<le> length (shape image') \<Longrightarrow>
     reachable E (snd (reset E s image' original_image' target_box' max_steps' alpha' nu'
                             threshold' feature_extractor' target_size'))"
| reach_step:
    "reachable E s \<Longrightarrow> reachable E (snd (step E s action))"

section \<open>Value estimators: \<^verbatim>\<open>models.py\<close>\<close>

text \<open>
  \<^verbatim>\<open>F.linear(x, W, b)\<close> on one input vector: \<open>W\<close> has one row per output, and torch
  raises RuntimeError when a row's length differs from the input's or the bias has
  another length than the number of rows.
\<close>

definition dot :: "real list \<Rightarrow> real list \<Rightarrow> real" where
  "dot u v = sum_list (map2 (*) u v)"

definition F_linear :: "real list \<Rightarrow> real list list \<Rightarrow> real list \<Rightarrow> error + real list" where
  "F_linear x W b =
     (if list_all (\<lambda>r. length r = length x) W \<and> length b = length W
      then Inr (map2 (\<lambda>r c. dot r x + c) W b)
      else Inl RuntimeError)"

text \<open>The layers of the \<^verbatim>\<open>nn.Sequential\<close> trunks of the two \<^verbatim>\<open>DuelingDQN\<close> classes.\<close>

datatype layer = Linear "real list list" "real list" | ReLU | Tanh

fun apply_layer :: "layer \<Rightarrow> real list \<Rightarrow> error + real list" where
  "apply_layer (Linear W b) x = F_linear x W b"
| "apply_layer ReLU x = Inr (map (max 0) x)"
| "apply_layer Tanh x = Inr (map tanh x)"

fun sequential :: "layer list \<Rightarrow> real list \<Rightarrow> error + real list" where
  "sequential [] x = Inr x"
| "sequential (l # ls) x =
     (case apply_layer l x of Inl e \<Rightarrow> Inl e | Inr y \<Rightarrow> sequential ls y)"

text \<open>
  Elementwise arithmetic on two vectors with torch's broadcasting: equal lengths, or
  one of them of length one; anything else raises RuntimeError.
\<close>

definition broadcast :: "(real \<Rightarrow> real \<Rightarrow> real) \<Rightarrow> real list \<Rightarrow> real list \<Rightarrow> error + real list" where
  "broadcast f xs ys =
     (if length xs = length ys then Inr (map2 f xs ys)
      else if length xs = 1 then Inr (map (f (hd xs)) ys)
      else if length ys = 1 then Inr (map (\<lambda>x. f x (hd ys)) xs)
      else Inl RuntimeError)"

text \<open>
  float32 rounding. The elementwise operations and the mean of \<^verbatim>\<open>forward\<close> are float32
  operations: each result is the exact result rounded to the nearest float32, ties to
  the even significand. \<open>exponent32\<close> finds the binade of \<open>x\<close> by search, bounded by the
  format's exponent range (\<open>-126\<close> for subnormals, \<open>127\<close> at the top); the spacing of the
  floats there is \<open>2 powi (exponent32 x - 23)\<close>. Beyond \<open>max32\<close>, the largest finite float32,
  torch yields infinity; the value of \<open>fl32\<close> there is not used.
\<close>

definition round_even :: "real \<Rightarrow> int" where
  "round_even y =
     (let f = \<lfloor>y\<rfloor>; d = y - real_of_int f
      in if d < 1/2 then f else if 1/2 < d then f + 1 else if even f then f else f + 1)"

fun exp_up :: "nat \<Rightarrow> int \<Rightarrow> real \<Rightarrow> int" where
  "exp_up 0 e a = e"
| "exp_up (Suc k) e a = (if a < 2 powi (e + 1) then e else exp_up k (e + 1) a)"

fun exp_down :: "nat \<Rightarrow> int \<Rightarrow> real \<Rightarrow> int" where
  "exp_down 0 e a = e"
| "exp_down (Suc k) e a = (if 2 powi e \<le> a then e else exp_down k (e - 1) a)"

definition exponent32 :: "real \<Rightarrow> int" where
  "exponent32 x = (if 1 \<le> \<bar>x\<bar> then exp_up 127 0 \<bar>x\<bar> else exp_down 125 (- 1) \<bar>x\<bar>)"

definition fl32 :: "real \<Rightarrow> real" where
  "fl32 x = (let q = 2 powi (exponent32 x - 23) in real_of_int (round_even (x / q)) * q)"

definition max32 :: real where
  "max32 = (2 ^ 24 - 1) * 2 ^ 104"

text \<open>
  \<^verbatim>\<open>t.mean(dim=-1, keepdim=True)\<close> of a float32 vector: the float32 sum of the entries
  divided by their number, as a vector of length one. \<open>fl_sum\<close> adds from left to right,
  rounding after every addition (the order of torch's reduction is its own; the sums
  evaluated below are exact in any order). \<open>sum_pre\<close> lists the exact values that
  \<open>fl_sum\<close> rounds.
\<close>

definition fl_sum :: "real list \<Rightarrow> real" where
  "fl_sum xs = foldl (\<lambda>acc x. fl32 (acc + x)) 0 xs"

fun sum_pre :: "real \<Rightarrow> real list \<Rightarrow> real list" where
  "sum_pre acc [] = []"
| "sum_pre acc (x # xs) = (acc + x) # sum_pre (fl32 (acc + x)) xs"

definition mean32 :: "real list \<Rightarrow> real" where
  "mean32 xs = fl32 (fl_sum xs / real (length xs))"

definition mean_keepdim :: "real list \<Rightarrow> real list" where
  "mean_keepdim xs = [mean32 xs]"

text \<open>
  The arithmetic mean over exact reals. It is the yardstick of the statements about the
  scores; the code's own mean is \<open>mean32\<close>.
\<close>

definition exact_mean :: "real list \<Rightarrow> real" where
  "exact_mean xs = sum_list xs / real (length xs)"

text \<open>
  \<^verbatim>\<open>DuelingDQN\<close>: a trunk (\<^verbatim>\<open>shared_layers\<close> in \<^verbatim>\<open>SaRLVision/models.py\<close>, \<^verbatim>\<open>net\<close> in
  \<^verbatim>\<open>RL/models.py\<close>) and the two heads \<^verbatim>\<open>valfunc\<close> and \<^verbatim>\<open>advfunc\<close>, each a weight
  matrix and a bias.
\<close>

record DuelingDQN =
  shared_layers :: "layer list"
  valfunc :: "real list list \<times> real list"
  advfunc :: "real list list \<times> real list"

definition DuelingDQN_value :: "DuelingDQN \<Rightarrow> real list \<Rightarrow> error + real list" where
  "DuelingDQN_value m X =
     (case sequential (shared_layers m) X of
        Inl e \<Rightarrow> Inl e
      | Inr out \<Rightarrow> F_linear out (fst (valfunc m)) (snd (valfunc m)))"

definition DuelingDQN_adv :: "DuelingDQN \<Rightarrow> real list \<Rightarrow> error + real list" where
  "DuelingDQN_adv m X =
     (case sequential (shared_layers m) X of
        Inl e \<Rightarrow> Inl e
      | Inr out \<Rightarrow> F_linear out (fst (advfunc m)) (snd (advfunc m)))"

text \<open>
  \<^verbatim>\<open>forward\<close>: \<^verbatim>\<open>value + adv - adv.mean(dim=-1, keepdim=True)\<close>, left to right, each
  elementwise result rounded to float32. \<open>value\<close> and \<open>adv\<close> are what the two heads
  return.
\<close>

definition DuelingDQN_forward :: "DuelingDQN \<Rightarrow> real list \<Rightarrow> error + real list" where
  "DuelingDQN_forward m X =
     (case DuelingDQN_value m X of
        Inl e \<Rightarrow> Inl e
      | Inr val \<Rightarrow>
          (case DuelingDQN_adv m X of
             Inl e \<Rightarrow> Inl e
           | Inr adv \<Rightarrow>
               (case broadcast (\<lambda>x y. fl32 (x + y)) val adv of
                  Inl e \<Rightarrow> Inl e
                | Inr va \<Rightarrow> broadcast (\<lambda>x y. fl32 (x - y)) va (mean_keepdim adv))))"

text \<open>
  The exact values that one run of the combination rounds, for a value \<open>v\<close> and an
  advantage vector: the partial sums and the quotient of the mean, the sums
  \<open>v + a\<close>, and the differences from the mean. A run stays in the finite float32 range
  when none of them exceeds \<open>max32\<close> in absolute value.
\<close>

definition dueling_prerounded :: "real \<Rightarrow> real list \<Rightarrow> real list" where
  "dueling_prerounded v adv =
     sum_pre 0 adv @ [fl_sum adv / real (length adv)] @ map (\<lambda>a. v + a) adv @
     map (\<lambda>a. fl32 (v + a) - mean32 adv) adv"

definition in_range32 :: "real list \<Rightarrow> bool" where
  "in_range32 xs = list_all (\<lambda>x. \<bar>x\<bar> \<le> max32) xs"

text \<open>
  \<^verbatim>\<open>NoisyLinear\<close>: mean and noise-scale parameters and the module's \<^verbatim>\<open>training\<close> flag.
  The two \<^verbatim>\<open>torch.normal(0, sigma, size=...)\<close> draws are arguments of the model: the
  matrix and the vector that were drawn.
\<close>

record NoisyLinear =
  w_mu :: "real list list"
  w_sigma :: "real list list"
  b_mu :: "real list"
  b_sigma :: "real list"
  training :: bool

definition NoisyLinear_forward ::
  "NoisyLinear \<Rightarrow> real list \<Rightarrow> real list list \<Rightarrow> real list \<Rightarrow> error + real list" where
  "NoisyLinear_forward l x w_noise b_noise =
     (if training l then
        F_linear x
          (map2 (map2 (+)) (w_mu l) (map2 (map2 (*)) (w_sigma l) w_noise))
          (map2 (+) (b_mu l) (map2 (*) (b_sigma l) b_noise))
      else F_linear x (w_mu l) (b_mu l))"

text \<open>\<^verbatim>\<open>NoisyDQN\<close>: \<^verbatim>\<open>a1\<close>, \<^verbatim>\<open>tanh\<close>, \<^verbatim>\<open>a2\<close>; each layer draws its own noise.\<close>

record NoisyDQN =
  a1 :: NoisyLinear
  a2 :: NoisyLinear

definition NoisyDQN_forward ::
  "NoisyDQN \<Rightarrow> real list \<Rightarrow> (real list list \<times> real list) \<Rightarrow> (real list list \<times> real list) \<Rightarrow>
   error + real list" where
  "NoisyDQN_forward m X noise1 noise2 =
     (case NoisyLinear_forward (a1 m) X (fst noise1) (snd noise1) of
        Inl e \<Rightarrow> Inl e
      | Inr out \<Rightarrow> NoisyLinear_forward (a2 m) (map tanh out) (fst noise2) (snd noise2))"

section \<open>Concrete collaborators and inputs\<close>

text \<open>
  Modelled from the spec: \<^verbatim>\<open>utils.iou\<close> is missing from \<^verbatim>\<open>src/\<close>. "IoU is the standard
  intersection-area / union-area over two axis-aligned boxes, defined as 0 when union
  area is 0." It reads the coordinates of both arguments by index, which raises
  TypeError on an argument that is not a box.
\<close>

definition box_area :: "bbox \<Rightarrow> real" where
  "box_area b = (case b of (xmin, ymin, xmax, ymax) \<Rightarrow> (xmax - xmin) * (ymax - ymin))"

definition intersection_area :: "bbox \<Rightarrow> bbox \<Rightarrow> real" where
  "intersection_area b1 b2 =
     (case (b1, b2) of ((xmin1, ymin1, xmax1, ymax1), (xmin2, ymin2, xmax2, ymax2)) \<Rightarrow>
        max 0 (min xmax1 xmax2 - max xmin1 xmin2) * max 0 (min ymax1 ymax2 - max ymin1 ymin2))"

fun iou_std :: "pyval \<Rightarrow> pyval \<Rightarrow> error + real" where
  "iou_std (Box b1) (Box b2) =
     (let inter = intersection_area b1 b2;
          union_area = box_area b1 + box_area b2 - inter
      in Inr (if union_area = 0 then 0 else inter / union_area))"
| "iou_std _ _ = Inl TypeError"

text \<open>
  Modelled from the spec: \<^verbatim>\<open>utils.recall\<close> is missing from \<^verbatim>\<open>src/\<close> and the spec only
  names it as an entry of the info dictionary; taken as intersection area over target
  area, 0 when the target area is 0.
\<close>

fun recall_std :: "pyval \<Rightarrow> pyval \<Rightarrow> error + real" where
  "recall_std (Box b1) (Box b2) =
     Inr (if box_area b2 = 0 then 0 else intersection_area b1 b2 / box_area b2)"
| "recall_std _ _ = Inl TypeError"

text \<open>
  A stand-in for the torchvision pipeline (three channels at the target resolution) and
  a stand-in feature extractor returning a batch of one 4-entry feature vector.
\<close>

definition toy_transform_input :: "ndarray \<Rightarrow> nat \<times> nat \<Rightarrow> error + ndarray" where
  "toy_transform_input image' target_size' =
     Inr \<lparr>shape = [3, fst target_size', snd target_size'],
          data = replicate (3 * fst target_size' * snd target_size') 0\<rparr>"

definition toy_extractor :: "ndarray \<Rightarrow> error + ndarray" where
  "toy_extractor t = Inr \<lparr>shape = [1, 4], data = [1/4, 1/2, 3/4, 1]\<rparr>"

text \<open>
  \<open>ext_strict\<close>: torch as it is. \<^verbatim>\<open>torch.nonzero\<close> takes a tensor and raises TypeError on
  a Python list; a list has no attribute \<^verbatim>\<open>view\<close>. \<open>ext_lenient\<close>: the two calls behave
  as they would on a tensor holding the same entries as the rows: the number of nonzero
  entries, and the entries in row-major order.
\<close>

definition ext_strict :: ext where
  "ext_strict =
     \<lparr>transform_input = toy_transform_input, iou = iou_std, recall = recall_std,
      nonzero_len = (\<lambda>rs. Inl TypeError), view_flat = (\<lambda>rs. Inl AttributeError)\<rparr>"

definition ext_lenient :: ext where
  "ext_lenient =
     \<lparr>transform_input = toy_transform_input, iou = iou_std, recall = recall_std,
      nonzero_len = (\<lambda>rs. Inr (length (filter (\<lambda>v. v \<noteq> 0) (concat rs)))),
      view_flat = (\<lambda>rs. Inr (concat rs))\<rparr>"

text \<open>A 100 by 100 grey image, and the object \<^verbatim>\<open>__init__\<close> builds for it.\<close>

definition img100 :: ndarray where
  "img100 = \<lparr>shape = [100, 100], data = replicate 10000 0\<rparr>"

definition fresh_env :: "int \<Rightarrow> real \<Rightarrow> env" where
  "fresh_env max_steps' alpha' =
     \<lparr>image_arr = img100, original_image = img100, target_box = (10, 10, 90, 90),
      height = 100, width = 100, target_size = (2, 2),
      actions_history = replicate 20 0,
      heap = (\<lambda>_. [])(0 := replicate 9 100), next_addr = 1,
      num_episodes = 0, bbox = (0, 0, 100, 100),
      feature_extractor = toy_extractor,
      transform = \<lparr>shape = [3, 2, 2], data = replicate 12 0\<rparr>,
      observation_space = 21, terminated = False, truncated = False,
      max_steps = max_steps', step_count = 0, alpha = alpha', nu = 3,
      cumulative_reward = 0, threshold = 1/2\<rparr>"

text \<open>
  The object after one trigger step with \<open>max_steps = 1\<close> (lenient history calls): an
  episode that has ended.
\<close>

definition finished_env :: env where
  "finished_env = snd (step ext_lenient (fresh_env 1 (1/5)) 8)"

text \<open>
  A small dueling network with nine actions (a \<^verbatim>\<open>Linear\<close>, \<^verbatim>\<open>ReLU\<close> trunk) and a small
  noisy network whose two layers share one \<^verbatim>\<open>training\<close> flag, as \<^verbatim>\<open>train()\<close> and
  \<^verbatim>\<open>eval()\<close> set it.
\<close>

definition toy_dueling :: DuelingDQN where
  "toy_dueling =
     \<lparr>shared_layers = [Linear [[1, -1], [2, 1]] [0, 1], ReLU],
      valfunc = ([[1, 1]], [1/2]),
      advfunc = ([[1, 0], [0, 1], [1, 1], [2, 0], [0, 2], [1, -1], [-1, 1], [3, 0], [0, 0]],
                 [0, 0, 0, 0, 0, 0, 0, 0, 7])\<rparr>"

definition toy_noisy :: "bool \<Rightarrow> NoisyDQN" where
  "toy_noisy tr =
     \<lparr>a1 = \<lparr>w_mu = [[1, 0], [0, 1]], w_sigma = [[1, 1], [1, 1]], b_mu = [0, 0],
            b_sigma = [1, 1], training = tr\<rparr>,
      a2 = \<lparr>w_mu = [[1, 1]], w_sigma = [[1, 1]], b_mu = [3], b_sigma = [1], training = tr\<rparr>\<rparr>"

section \<open>Properties\<close>

subsection \<open>What each stage of a step changes\<close>

lemma rewrap_bounds: "0 \<le> rewrap c (real n) \<and> rewrap c (real n) \<le> real n"
  by (simp add: rewrap_def)

lemma transform_action_within:
  "within_image (transform_action s action) (width s) (height s)"
  by (simp add: transform_action_def within_image_def rewrap_bounds Let_def split: prod.splits)

lemma transform_action_heap:
  "transform_action (s\<lparr>heap := h\<rparr>) action = transform_action s action"
  by (simp add: transform_action_def)

lemma update_history_frame: "\<exists>h. snd (update_history E s action) = s\<lparr>heap := h\<rparr>"
proof -
  have "s = s\<lparr>heap := heap s\<rparr>" by simp
  then show ?thesis
    unfolding update_history_def Let_def
    by (auto split: sum.splits intro: exI[of _ "heap s"])
qed

lemma apply_action_frame:
  "width (snd (apply_action E s action)) = width s \<and>
   height (snd (apply_action E s action)) = height s \<and>
   (bbox (snd (apply_action E s action)) = bbox s \<or>
    bbox (snd (apply_action E s action)) = transform_action s action)"
  by (simp add: apply_action_def Let_def split: sum.splits)

lemma count_step_frame:
  "width (count_step s r) = width s \<and> height (count_step s r) = height s \<and>
   bbox (count_step s r) = bbox s"
  by (simp add: count_step_def Let_def)

text \<open>The state a step leaves behind is the state of the last stage it reached.\<close>

lemma step_post:
  "snd (step E s action) = snd (update_history E s action) \<or>
   snd (step E s action) = snd (apply_action E (snd (update_history E s action)) action) \<or>
   (\<exists>r. fst (apply_action E (snd (update_history E s action)) action) = Inr r \<and>
      snd (step E s action) =
        count_step (snd (apply_action E (snd (update_history E s action)) action)) r)"
  by (simp add: step_def Let_def split: sum.splits prod.splits)

lemma step_returns:
  assumes "update_history E s action = (Inr u, s1)" "apply_action E s1 action = (Inr r, s2)"
    "get_state E (count_step s2 r) = Inr ob" "get_info E (count_step s2 r) = Inr i"
  shows "step E s action =
     (Inr (ob, r, terminated (count_step s2 r), truncated (count_step s2 r), i), count_step s2 r)"
  by (simp add: step_def assms Let_def)

lemma step_raises_in_action:
  assumes "update_history E s action = (Inr u, s1)" "apply_action E s1 action = (Inl e, s2)"
  shows "step E s action = (Inl e, s2)"
  by (simp add: step_def assms)

lemma step_raises_in_history:
  assumes "update_history E s action = (Inl e, s1)"
  shows "step E s action = (Inl e, s1)"
  by (simp add: step_def assms)

lemma step_frame:
  "width (snd (step E s action)) = width s \<and> height (snd (step E s action)) = height s \<and>
   (bbox (snd (step E s action)) = bbox s \<or>
    bbox (snd (step E s action)) = transform_action s action)"
proof -
  obtain h where h: "snd (update_history E s action) = s\<lparr>heap := h\<rparr>"
    using update_history_frame by blast
  let ?s1 = "s\<lparr>heap := h\<rparr>"
  have a: "width (snd (apply_action E ?s1 action)) = width s \<and>
     height (snd (apply_action E ?s1 action)) = height s \<and>
     (bbox (snd (apply_action E ?s1 action)) = bbox s \<or>
      bbox (snd (apply_action E ?s1 action)) = transform_action s action)"
    using apply_action_frame[of E ?s1 action] by (simp add: transform_action_heap)
  from step_post[of E s action] show ?thesis
    unfolding h using a by (auto simp: count_step_frame)
qed

subsection \<open>Evaluating the concrete collaborators\<close>

lemma shape_img100: "shape img100 = [100, 100]"
  unfolding img100_def by (rule ndarray.select_convs)

lemma init_fresh:
  "init ext_lenient img100 img100 (10, 10, 90, 90) ms al 3 (1/2) toy_extractor (2, 2) =
     Inr (fresh_env ms al)"
  by (simp add: init_def shape_img100 ext_lenient_def toy_transform_input_def get_features_def
      toy_extractor_def fresh_env_def unsqueeze0_def)


lemma fresh_hist:
  "actions_history (fresh_env ms al) = replicate 20 0"
  "heap (fresh_env ms al) 0 = replicate 9 100"
  by (simp_all add: fresh_env_def)

text \<open>Copying a row object onto itself changes nothing.\<close>

lemma shift_loop_aliased: "k < n \<Longrightarrow> shift_loop k (replicate n a) h = h"
  by (induction k arbitrary: h) simp_all

lemma length_concat_replicate: "length (concat (replicate n xs)) = n * length xs"
  by (induction n) simp_all

lemma rows_aliased: "actions_history s = replicate n a \<Longrightarrow> rows s = replicate n (heap s a)"
  by (simp add: rows_def)

lemma update_history_lenient_fresh:
  assumes "actions_history s = replicate 20 a" "heap s a = replicate 9 100" "action < 9"
  shows "update_history ext_lenient s action =
           (Inr (replicate 20 a), s\<lparr>heap := (heap s)(a := (replicate 9 0)[action := 1])\<rparr>)"
  using assms
  by (simp add: update_history_def rows_aliased ext_lenient_def length_concat_replicate
        shift_loop_aliased Let_def)

lemma update_history_strict:
  "action < 9 \<Longrightarrow> update_history ext_strict s action = (Inl TypeError, s)"
  by (simp add: update_history_def ext_strict_def)

lemma apply_action_std_geometric:
  assumes "iou E = iou_std" "action < 8"
  shows "apply_action E s action = (Inl TypeError, s\<lparr>bbox := transform_action s action\<rparr>)"
  using assms by (simp add: apply_action_def calculate_reward_def Let_def)

lemma get_state_lenient:
  assumes "feature_extractor s = toy_extractor"
  shows "get_state ext_lenient s =
     Inr \<lparr>shape = [1, 4 + length (concat (rows s))],
          data = [1/4, 1/2, 3/4, 1] @ concat (rows s)\<rparr>"
  using assms
  by (simp add: get_state_def get_features_def ext_lenient_def toy_transform_input_def
      toy_extractor_def cat1_def view_1_m1_def)

lemma get_info_std:
  assumes "iou E = iou_std" "recall E = recall_std"
  shows "\<exists>i r. get_info E s = Inr \<lparr>info_env = s, info_iou = i, info_recall = r\<rparr>"
  using assms by (simp add: get_info_def Let_def)

text \<open>
  A geometric step of the freshly built object: with the lenient history calls the box
  is assigned and the reward call then raises.
\<close>

lemma step_shrink_fresh:
  "step ext_lenient (fresh_env ms al) 5 =
     (Inl TypeError,
      (fresh_env ms al)\<lparr>heap := (heap (fresh_env ms al))(0 := (replicate 9 0)[5 := 1]),
                        bbox := transform_action (fresh_env ms al) 5\<rparr>)"
proof -
  let ?s = "fresh_env ms al"
  let ?s1 = "?s\<lparr>heap := (heap ?s)(0 := (replicate 9 0)[5 := 1])\<rparr>"
  have u: "update_history ext_lenient ?s 5 = (Inr (replicate 20 0), ?s1)"
    using update_history_lenient_fresh[of ?s 0 5] by (simp add: fresh_hist)
  have a: "apply_action ext_lenient ?s1 5 = (Inl TypeError, ?s1\<lparr>bbox := transform_action ?s1 5\<rparr>)"
    by (rule apply_action_std_geometric) (simp_all add: ext_lenient_def)
  show ?thesis
    using step_raises_in_action[OF u a] by (simp add: transform_action_heap)
qed

lemma transform_shrink_fresh: "transform_action (fresh_env ms (1/5)) 5 = (20, 20, 80, 80)"
  by (simp add: transform_action_def fresh_env_def rewrap_def)

subsection \<open>The box stays inside the image\<close>

lemma step_within:
  assumes "within_image (bbox s) (width s) (height s)"
  shows "within_image (bbox (snd (step E s action))) (width (snd (step E s action)))
           (height (snd (step E s action)))"
  using step_frame[of E s action] assms transform_action_within[of s action] by auto

lemma init_within:
  assumes "init E im oim tb ms al n th fe ts = Inr s"
  shows "within_image (bbox s) (width s) (height s)"
  using assms
  by (auto simp: init_def Let_def within_image_def split: list.splits sum.splits)

lemma reset_within:
  assumes "2 \<le> length (shape im)"
  shows "within_image (bbox (snd (reset E s im oim tb ms al n th fe ts)))
           (width (snd (reset E s im oim tb ms al n th fe ts)))
           (height (snd (reset E s im oim tb ms al n th fe ts)))"
  using assms
  by (auto simp: reset_def Let_def within_image_def split: list.splits sum.splits)

lemma reachable_within:
  "reachable E s \<Longrightarrow> within_image (bbox s) (width s) (height s)"
  by (induction rule: reachable.induct) (auto intro: init_within reset_within step_within)

text \<open>
  C7. \<^verbatim>\<open>rewrap\<close> is the clamp \<open>min (max 0 coord) size\<close>; for every box and every action
  (the geometric ones 0 to 7 in particular) each coordinate returned by
  \<^verbatim>\<open>transform_action\<close> lies between 0 and the image's width, respectively height; and so
  does the box of every state reachable by construction, resets and steps.
\<close>

theorem bbox_within_image:
  "rewrap c size_px = min (max 0 c) size_px \<and>
   within_image (transform_action s action) (width s) (height s) \<and>
   (reachable E s \<longrightarrow> within_image (bbox s) (width s) (height s))"
  using transform_action_within[of s action] reachable_within[of E s]
  by (simp add: rewrap_def)

theorem bbox_within_image_witness:
  "reachable ext_lenient (snd (step ext_lenient (fresh_env 500 (1/5)) 5)) \<and>
   bbox (snd (step ext_lenient (fresh_env 500 (1/5)) 5)) = (20, 20, 80, 80) \<and>
   within_image (bbox (snd (step ext_lenient (fresh_env 500 (1/5)) 5))) 100 100"
proof -
  let ?s = "snd (step ext_lenient (fresh_env 500 (1/5)) 5)"
  have r: "reachable ext_lenient ?s"
    by (rule reach_step, rule reach_init, rule init_fresh)
  have b: "bbox ?s = (20, 20, 80, 80)"
    by (simp add: step_shrink_fresh transform_shrink_fresh)
  have w: "width ?s = 100" "height ?s = 100"
    by (simp_all add: step_shrink_fresh) (simp_all add: fresh_env_def)
  from bbox_within_image[of 0 0 ?s 5 ext_lenient] r b w show ?thesis by simp
qed

subsection \<open>float32 rounding\<close>

lemma exp_up_numeral [simp]:
  "exp_up (numeral n) e a = (if a < 2 powi (e + 1) then e else exp_up (pred_numeral n) (e + 1) a)"
  by (simp add: numeral_eq_Suc)

lemma exp_down_numeral [simp]:
  "exp_down (numeral n) e a = (if 2 powi e \<le> a then e else exp_down (pred_numeral n) (e - 1) a)"
  by (simp add: numeral_eq_Suc)

lemma round_even_error: "\<bar>real_of_int (round_even y) - y\<bar> \<le> 1/2"
proof -
  have "real_of_int \<lfloor>y\<rfloor> \<le> y" "y < real_of_int \<lfloor>y\<rfloor> + 1" by linarith+
  then show ?thesis by (auto simp: round_even_def Let_def)
qed

lemma exp_up_spec:
  "2 powi e \<le> a \<Longrightarrow> a < 2 powi (e + int k + 1) \<Longrightarrow>
     2 powi (exp_up k e a) \<le> a \<and> a < 2 powi (exp_up k e a + 1)"
proof (induction k arbitrary: e)
  case 0
  then show ?case by simp
next
  case (Suc k)
  show ?case
  proof (cases "a < 2 powi (e + 1)")
    case True
    with Suc.prems show ?thesis by simp
  next
    case False
    then have "2 powi (e + 1) \<le> a" by simp
    moreover from Suc.prems(2) have "a < 2 powi ((e + 1) + int k + 1)"
      by (simp add: add.commute add.left_commute)
    ultimately show ?thesis using Suc.IH[of "e + 1"] False by simp
  qed
qed

lemma exp_down_spec:
  "a < 2 powi (e + 1) \<Longrightarrow>
     a < 2 powi (exp_down k e a + 1) \<and>
     (2 powi (exp_down k e a) \<le> a \<or> exp_down k e a = e - int k)"
proof (induction k arbitrary: e)
  case 0
  then show ?case by simp
next
  case (Suc k)
  show ?case
  proof (cases "2 powi e \<le> a")
    case True
    with Suc.prems show ?thesis by simp
  next
    case False
    then have "a < 2 powi ((e - 1) + 1)" by simp
    from Suc.IH[OF this] False show ?thesis by auto
  qed
qed

lemma exponent32_spec:
  assumes "\<bar>x\<bar> < 2 ^ 128"
  shows "2 powi (exponent32 x) \<le> \<bar>x\<bar> \<or> exponent32 x = - 126"
proof (cases "1 \<le> \<bar>x\<bar>")
  case True
  have "2 powi (exp_up 127 0 \<bar>x\<bar>) \<le> \<bar>x\<bar>"
    using exp_up_spec[of 0 "\<bar>x\<bar>" 127] True assms by simp
  with True show ?thesis by (simp add: exponent32_def)
next
  case False
  then have "\<bar>x\<bar> < 2 powi (- 1 + 1)" by simp
  from exp_down_spec[OF this, of 125] False show ?thesis
    by (auto simp: exponent32_def)
qed

text \<open>Within the finite range, rounding moves a value by at most half a spacing.\<close>

lemma fl32_error:
  assumes "\<bar>x\<bar> \<le> max32"
  shows "\<bar>fl32 x - x\<bar> \<le> \<bar>x\<bar> / 2 ^ 24 + 1 / 2 ^ 150"
proof -
  from assms have r: "\<bar>x\<bar> < 2 ^ 128" by (simp add: max32_def)
  define e where "e = exponent32 x"
  define q :: real where "q = 2 powi (e - 23)"
  have q: "0 < q" by (simp add: q_def)
  have "fl32 x - x = (real_of_int (round_even (x / q)) - x / q) * q"
    using q by (simp add: fl32_def Let_def q_def e_def algebra_simps)
  then have "\<bar>fl32 x - x\<bar> = \<bar>real_of_int (round_even (x / q)) - x / q\<bar> * q"
    using q by (simp add: abs_mult)
  also have "\<dots> \<le> 1/2 * q"
    using round_even_error[of "x / q"] q by (intro mult_right_mono) auto
  also have "1/2 * q = 2 powi e / 2 ^ 24"
    by (simp add: q_def power_int_diff)
  finally have b: "\<bar>fl32 x - x\<bar> \<le> 2 powi e / 2 ^ 24" .
  from exponent32_spec[OF r] consider "2 powi e \<le> \<bar>x\<bar>" | "e = - 126"
    by (auto simp: e_def)
  then show ?thesis
  proof cases
    case 1
    then have "2 powi e / 2 ^ 24 \<le> \<bar>x\<bar> / 2 ^ 24" by (simp add: divide_right_mono)
    with b show ?thesis by simp
  next
    case 2
    then have "2 powi e / (2::real) ^ 24 = 1 / 2 ^ 150" by simp
    with b have "\<bar>fl32 x - x\<bar> \<le> 1 / 2 ^ 150" by (simp only:)
    moreover have "0 \<le> \<bar>x\<bar> / 2 ^ 24" by simp
    ultimately show ?thesis by linarith
  qed
qed

subsection \<open>Dueling network\<close>

text \<open>The two broadcasts of \<^verbatim>\<open>value + adv - adv.mean(...)\<close> on a non-empty advantage.\<close>

lemma dueling_combination:
  assumes "xs \<noteq> []"
  shows "(case broadcast (\<lambda>x y. fl32 (x + y)) [v] xs of Inl e \<Rightarrow> Inl e
          | Inr va \<Rightarrow> broadcast (\<lambda>x y. fl32 (x - y)) va (mean_keepdim xs)) =
         Inr (map (\<lambda>a. fl32 (fl32 (v + a) - mean32 xs)) xs)"
proof (cases "length xs = 1")
  case True
  then obtain a where "xs = [a]" by (cases xs) auto
  then show ?thesis by (simp add: broadcast_def mean_keepdim_def)
next
  case False
  with assms show ?thesis
    by (auto simp: broadcast_def mean_keepdim_def)
qed

lemma dueling_forward_form:
  assumes "DuelingDQN_forward m X = Inr Q" and "DuelingDQN_value m X = Inr [v]"
    and "DuelingDQN_adv m X = Inr adv" and "adv \<noteq> []"
  shows "Q = map (\<lambda>a. fl32 (fl32 (v + a) - mean32 adv)) adv"
  using assms(1) dueling_combination[OF assms(4), of v]
  by (simp add: DuelingDQN_forward_def assms(2,3))

lemma exact_mean_le:
  assumes "\<And>a. a \<in> set xs \<Longrightarrow> f a \<le> g a"
  shows "exact_mean (map f xs) \<le> exact_mean (map g xs)"
proof -
  have "sum_list (map f xs) \<le> sum_list (map g xs)"
    using assms by (intro sum_list_mono) auto
  then show ?thesis by (simp add: exact_mean_def divide_right_mono)
qed

lemma exact_mean_shift:
  "xs \<noteq> [] \<Longrightarrow> exact_mean (map (\<lambda>a. (a - c) + h a) xs) = exact_mean xs - c + exact_mean (map h xs)"
proof -
  assume ne: "xs \<noteq> []"
  have "sum_list (map (\<lambda>a. (a - c) + h a) xs) =
          sum_list xs - real (length xs) * c + sum_list (map h xs)"
    by (induction xs) (simp_all add: algebra_simps)
  with ne show ?thesis by (simp add: exact_mean_def field_simps)
qed

lemma exact_mean_uminus: "exact_mean (map (\<lambda>a. - h a) xs) = - exact_mean (map h xs)"
proof -
  have "sum_list (map (\<lambda>a. - h a) xs) = - sum_list (map h xs)"
    by (induction xs) simp_all
  then show ?thesis by (simp add: exact_mean_def)
qed

lemma in_range32_parts:
  assumes "in_range32 (dueling_prerounded v adv)" "a \<in> set adv"
  shows "\<bar>v + a\<bar> \<le> max32" "\<bar>fl32 (v + a) - mean32 adv\<bar> \<le> max32"
  using assms by (auto simp: in_range32_def dueling_prerounded_def list_all_iff)

lemma dueling_entry_error:
  assumes "\<bar>v + a\<bar> \<le> max32" "\<bar>fl32 (v + a) - m\<bar> \<le> max32"
  shows "\<bar>(fl32 (fl32 (v + a) - m) - v) - (a - m)\<bar>
           \<le> (\<bar>v + a\<bar> + \<bar>fl32 (v + a) - m\<bar>) / 2 ^ 24 + 1 / 2 ^ 149"
proof -
  have 1: "\<bar>fl32 (v + a) - (v + a)\<bar> \<le> \<bar>v + a\<bar> / 2 ^ 24 + 1 / 2 ^ 150"
    by (rule fl32_error[OF assms(1)])
  have 2: "\<bar>fl32 (fl32 (v + a) - m) - (fl32 (v + a) - m)\<bar>
             \<le> \<bar>fl32 (v + a) - m\<bar> / 2 ^ 24 + 1 / 2 ^ 150"
    by (rule fl32_error[OF assms(2)])
  have "(1::real) / 2 ^ 150 + 1 / 2 ^ 150 = 1 / 2 ^ 149" by simp
  with 1 2 show ?thesis unfolding add_divide_distrib by linarith
qed

lemma fl_sum_error:
  assumes "list_all (\<lambda>x. \<bar>x\<bar> \<le> max32) (sum_pre acc xs)"
  shows "\<bar>foldl (\<lambda>acc x. fl32 (acc + x)) acc xs - (acc + sum_list xs)\<bar>
           \<le> sum_list (map (\<lambda>x. \<bar>x\<bar> / 2 ^ 24 + 1 / 2 ^ 150) (sum_pre acc xs))"
  using assms
proof (induction xs arbitrary: acc)
  case Nil
  then show ?case by simp
next
  case (Cons x xs)
  from Cons.prems have r: "\<bar>acc + x\<bar> \<le> max32"
    and rest: "list_all (\<lambda>x. \<bar>x\<bar> \<le> max32) (sum_pre (fl32 (acc + x)) xs)"
    by simp_all
  from fl32_error[OF r] Cons.IH[OF rest] show ?case by simp
qed

lemma mean32_error:
  assumes "in_range32 (dueling_prerounded v adv)" and "adv \<noteq> []"
  shows "\<bar>mean32 adv - exact_mean adv\<bar>
           \<le> \<bar>fl_sum adv / real (length adv)\<bar> / 2 ^ 24 + 1 / 2 ^ 150 +
              sum_list (map (\<lambda>x. \<bar>x\<bar> / 2 ^ 24 + 1 / 2 ^ 150) (sum_pre 0 adv)) / real (length adv)"
proof -
  let ?n = "real (length adv)"
  from assms(2) have n: "0 < ?n" by simp
  from assms(1) have p: "list_all (\<lambda>x. \<bar>x\<bar> \<le> max32) (sum_pre 0 adv)"
    and q: "\<bar>fl_sum adv / ?n\<bar> \<le> max32"
    by (simp_all add: in_range32_def dueling_prerounded_def)
  have s: "\<bar>fl_sum adv - sum_list adv\<bar>
      \<le> sum_list (map (\<lambda>x. \<bar>x\<bar> / 2 ^ 24 + 1 / 2 ^ 150) (sum_pre 0 adv))"
    using fl_sum_error[OF p] by (simp add: fl_sum_def)
  have "\<bar>fl_sum adv / ?n - exact_mean adv\<bar> = \<bar>fl_sum adv - sum_list adv\<bar> / ?n"
    using n by (simp add: exact_mean_def diff_divide_distrib[symmetric] del: of_nat_0_less_iff)
  also have "\<dots> \<le> sum_list (map (\<lambda>x. \<bar>x\<bar> / 2 ^ 24 + 1 / 2 ^ 150) (sum_pre 0 adv)) / ?n"
    using s n by (simp add: divide_right_mono)
  finally have d: "\<bar>fl_sum adv / ?n - exact_mean adv\<bar>
      \<le> sum_list (map (\<lambda>x. \<bar>x\<bar> / 2 ^ 24 + 1 / 2 ^ 150) (sum_pre 0 adv)) / ?n" .
  from fl32_error[OF q] d show ?thesis by (simp add: mean32_def)
qed

text \<open>The float32 values met in the two evaluations below.\<close>

lemma fl32_small:
  "fl32 0 = 0" "fl32 1 = 1" "fl32 2 = 2" "fl32 3 = 3" "fl32 4 = 4" "fl32 11 = 11"
  "fl32 5 = 5" "fl32 10 = 10" "fl32 15 = 15" "fl32 20 = 20" "fl32 27 = 27"
  "fl32 (1/2) = 1/2" "fl32 (3/2) = 3/2" "fl32 (5/2) = 5/2" "fl32 (7/2) = 7/2"
  "fl32 (17/2) = 17/2" "fl32 (11/2) = 11/2" "fl32 (21/2) = 21/2" "fl32 (31/2) = 31/2"
  "fl32 (25/2) = 25/2" "fl32 (15/2) = 15/2" "fl32 (19/2) = 19/2" "fl32 (- (5/2)) = - (5/2)"
  by (simp_all add: fl32_def exponent32_def round_even_def Let_def)

lemma fl32_ninths:
  "fl32 (11/9) = 10252743/8388608"
  "fl32 (2330169/8388608) = 2330169/8388608"
  "fl32 (10718777/8388608) = 10718777/8388608"
  "fl32 (19107385/8388608) = 2388423/1048576"
  "fl32 (- (6058439/8388608)) = - (6058439/8388608)"
  "fl32 (61050425/8388608) = 7631303/1048576"
  by (simp_all add: fl32_def exponent32_def round_even_def Let_def)


lemma toy_heads0:
  "DuelingDQN_value toy_dueling [0, 0] = Inr [3/2]"
  "DuelingDQN_adv toy_dueling [0, 0] = Inr [0, 1, 1, 0, 2, - 1, 1, 0, 7]"
  by (simp_all add: DuelingDQN_value_def DuelingDQN_adv_def toy_dueling_def F_linear_def dot_def)

lemma toy_heads12:
  "DuelingDQN_value toy_dueling [1, 2] = Inr [11/2]"
  "DuelingDQN_adv toy_dueling [1, 2] = Inr [0, 5, 5, 0, 10, - 5, 5, 0, 7]"
  by (simp_all add: DuelingDQN_value_def DuelingDQN_adv_def toy_dueling_def F_linear_def dot_def)

lemma toy_mean0: "mean32 [0, 1, 1, 0, 2, - 1, 1, 0, 7] = 10252743/8388608"
  by (simp add: mean32_def fl_sum_def fl32_small fl32_ninths)

lemma toy_mean12: "mean32 [0, 5, 5, 0, 10, - 5, 5, 0, 7] = 3"
  by (simp add: mean32_def fl_sum_def fl32_small)

lemma toy_forward0:
  "DuelingDQN_forward toy_dueling [0, 0] =
     Inr [2330169/8388608, 10718777/8388608, 10718777/8388608, 2330169/8388608,
          2388423/1048576, - (6058439/8388608), 10718777/8388608, 2330169/8388608,
          7631303/1048576]"
  by (simp add: DuelingDQN_forward_def toy_heads0 dueling_combination toy_mean0 fl32_small
      fl32_ninths)

lemma toy_forward12:
  "DuelingDQN_forward toy_dueling [1, 2] =
     Inr [5/2, 15/2, 15/2, 5/2, 25/2, - (5/2), 15/2, 5/2, 19/2]"
  by (simp add: DuelingDQN_forward_def toy_heads12 dueling_combination toy_mean12 fl32_small)

lemma toy_range12: "in_range32 (dueling_prerounded (11/2) [0, 5, 5, 0, 10, - 5, 5, 0, 7])"
  by (simp add: in_range32_def dueling_prerounded_def toy_mean12 fl_sum_def fl32_small max32_def)

text \<open>
  C8, as stated, fails: at the input \<open>[0, 0]\<close> of the small network the value is \<open>3/2\<close>,
  the float32 mean of the advantage is the rounding of \<open>11/9\<close>, two of the nine
  differences round, and the mean of \<open>Q - 3/2\<close> is \<open>- 1/75497472\<close>, not 0.
\<close>

theorem dueling_mean_not_zero_counterexample:
  "DuelingDQN_forward toy_dueling [0, 0] =
     Inr [2330169/8388608, 10718777/8388608, 10718777/8388608, 2330169/8388608,
          2388423/1048576, - (6058439/8388608), 10718777/8388608, 2330169/8388608,
          7631303/1048576] \<and>
   DuelingDQN_value toy_dueling [0, 0] = Inr [3/2] \<and>
   exact_mean (map (\<lambda>q. q - 3/2)
     [2330169/8388608, 10718777/8388608, 10718777/8388608, 2330169/8388608,
      2388423/1048576, - (6058439/8388608), 10718777/8388608, 2330169/8388608,
      7631303/1048576]) = - (1/75497472)"
  by (simp add: toy_forward0 toy_heads0 exact_mean_def)

text \<open>
  C8, amended. Whenever the dueling network (either trunk) returns scores \<open>Q\<close> for a
  value \<open>v\<close> and a non-empty advantage vector, and the run stays in the finite float32
  range, \<open>Q\<close> is \<open>v + adv - mean(adv)\<close> evaluated in float32, and the mean over the
  actions of \<open>Q - v\<close> is 0 up to rounding: its absolute value is at most the error of the
  float32 mean plus, per action, \<open>1 / 2 ^ 24\<close> of the magnitudes of the two elementwise
  results and \<open>1 / 2 ^ 149\<close>; and the error of the float32 mean is itself bounded by
  the roundings of its sum and its division.
\<close>

theorem dueling_mean_within_rounding:
  assumes "DuelingDQN_forward m X = Inr Q" and "DuelingDQN_value m X = Inr [v]"
    and "DuelingDQN_adv m X = Inr adv" and "adv \<noteq> []"
    and "in_range32 (dueling_prerounded v adv)"
  shows "Q = map (\<lambda>a. fl32 (fl32 (v + a) - mean32 adv)) adv \<and>
         \<bar>exact_mean (map (\<lambda>q. q - v) Q)\<bar>
           \<le> \<bar>mean32 adv - exact_mean adv\<bar> +
              exact_mean (map (\<lambda>a. (\<bar>v + a\<bar> + \<bar>fl32 (v + a) - mean32 adv\<bar>) / 2 ^ 24
                                     + 1 / 2 ^ 149) adv) \<and>
         \<bar>mean32 adv - exact_mean adv\<bar>
           \<le> \<bar>fl_sum adv / real (length adv)\<bar> / 2 ^ 24 + 1 / 2 ^ 150 +
              sum_list (map (\<lambda>x. \<bar>x\<bar> / 2 ^ 24 + 1 / 2 ^ 150) (sum_pre 0 adv))
                / real (length adv)"
proof -
  let ?m = "mean32 adv"
  let ?D = "\<lambda>a. fl32 (fl32 (v + a) - ?m) - v"
  let ?B = "\<lambda>a. (\<bar>v + a\<bar> + \<bar>fl32 (v + a) - ?m\<bar>) / 2 ^ 24 + 1 / 2 ^ 149"
  have Q: "Q = map (\<lambda>a. fl32 (fl32 (v + a) - ?m)) adv"
    by (rule dueling_forward_form[OF assms(1-4)])
  then have QD: "map (\<lambda>q. q - v) Q = map ?D adv" by simp
  have e: "\<bar>?D a - (a - ?m)\<bar> \<le> ?B a" if "a \<in> set adv" for a
    using dueling_entry_error[OF in_range32_parts[OF assms(5) that]] .
  have up: "exact_mean (map ?D adv) \<le> exact_mean (map (\<lambda>a. (a - ?m) + ?B a) adv)"
  proof (rule exact_mean_le)
    fix a assume "a \<in> set adv"
    from e[OF this] show "?D a \<le> (a - ?m) + ?B a" by (simp add: abs_le_iff)
  qed
  have lo: "exact_mean (map (\<lambda>a. (a - ?m) + - ?B a) adv) \<le> exact_mean (map ?D adv)"
  proof (rule exact_mean_le)
    fix a assume "a \<in> set adv"
    from e[OF this] show "(a - ?m) + - ?B a \<le> ?D a" by (simp add: abs_le_iff)
  qed
  have neg: "exact_mean (map (\<lambda>a. - ?B a) adv) = - exact_mean (map ?B adv)"
    by (rule exact_mean_uminus)
  from up lo exact_mean_shift[OF assms(4), of ?m ?B]
    exact_mean_shift[OF assms(4), of ?m "\<lambda>a. - ?B a"] neg
  have "\<bar>exact_mean (map ?D adv)\<bar> \<le> \<bar>?m - exact_mean adv\<bar> + exact_mean (map ?B adv)"
    by (simp add: abs_le_iff) linarith
  then have "\<bar>exact_mean (map (\<lambda>q. q - v) Q)\<bar>
      \<le> \<bar>?m - exact_mean adv\<bar> + exact_mean (map ?B adv)"
    by (simp only: QD)
  with Q mean32_error[OF assms(5,4)] show ?thesis by blast
qed

theorem dueling_mean_within_rounding_witness:
  "DuelingDQN_forward toy_dueling [1, 2] =
     Inr [5/2, 15/2, 15/2, 5/2, 25/2, - (5/2), 15/2, 5/2, 19/2] \<and>
   DuelingDQN_value toy_dueling [1, 2] = Inr [11/2] \<and>
   DuelingDQN_adv toy_dueling [1, 2] = Inr [0, 5, 5, 0, 10, - 5, 5, 0, 7] \<and>
   in_range32 (dueling_prerounded (11/2) [0, 5, 5, 0, 10, - 5, 5, 0, 7]) \<and>
   exact_mean (map (\<lambda>q. q - 11/2) [5/2, 15/2, 15/2, 5/2, 25/2, - (5/2), 15/2, 5/2, 19/2]) = 0 \<and>
   \<bar>exact_mean (map (\<lambda>q. q - 11/2) [5/2, 15/2, 15/2, 5/2, 25/2, - (5/2), 15/2, 5/2, 19/2])\<bar>
     \<le> \<bar>mean32 [0, 5, 5, 0, 10, - 5, 5, 0, 7] - exact_mean [0, 5, 5, 0, 10, - 5, 5, 0, 7]\<bar> +
        exact_mean (map (\<lambda>a. (\<bar>11/2 + a\<bar> +
            \<bar>fl32 (11/2 + a) - mean32 [0, 5, 5, 0, 10, - 5, 5, 0, 7]\<bar>) / 2 ^ 24 + 1 / 2 ^ 149)
          [0, 5, 5, 0, 10, - 5, 5, 0, 7])"
proof -
  have z: "exact_mean (map (\<lambda>q. q - 11/2)
      [5/2, 15/2, 15/2, 5/2, 25/2, - (5/2), 15/2, 5/2, 19/2]) = 0"
    by (simp add: exact_mean_def)
  have ne: "[0, 5, 5, 0, 10, - 5, 5, 0, 7] \<noteq> ([]::real list)" by simp
  from dueling_mean_within_rounding[OF toy_forward12 toy_heads12 ne toy_range12]
    toy_forward12 toy_heads12 toy_range12 z
  show ?thesis by blast
qed

subsection \<open>Noisy network\<close>

text \<open>In training mode the drawn noise does reach the output.\<close>

lemma noisy_training_uses_noise:
  "NoisyDQN_forward (toy_noisy True) [0, 0] ([[0, 0], [0, 0]], [0, 0]) ([[0, 0]], [9]) = Inr [12]"
  by (simp add: toy_noisy_def NoisyDQN_forward_def NoisyLinear_forward_def F_linear_def dot_def)

text \<open>
  C9. With \<^verbatim>\<open>training\<close> off in both layers, a \<^verbatim>\<open>NoisyLinear\<close> layer is the linear map of
  its mean parameters, the network is the composition of the two mean maps with
  \<^verbatim>\<open>tanh\<close>, two evaluations on the same input agree whatever noise is drawn, and
  replacing the noise-scale parameters does not change the output.
\<close>

theorem noisy_eval_means_only:
  assumes "\<not> training (a1 m)" and "\<not> training (a2 m)"
  shows "NoisyLinear_forward (a1 m) x w_noise b_noise = F_linear x (w_mu (a1 m)) (b_mu (a1 m)) \<and>
         NoisyDQN_forward m X n1 n2 =
           (case F_linear X (w_mu (a1 m)) (b_mu (a1 m)) of
              Inl e \<Rightarrow> Inl e
            | Inr out \<Rightarrow> F_linear (map tanh out) (w_mu (a2 m)) (b_mu (a2 m))) \<and>
         NoisyDQN_forward m X n1 n2 = NoisyDQN_forward m X n1' n2' \<and>
         NoisyDQN_forward
           (m\<lparr>a1 := (a1 m)\<lparr>w_sigma := ws1, b_sigma := bs1\<rparr>,
              a2 := (a2 m)\<lparr>w_sigma := ws2, b_sigma := bs2\<rparr>\<rparr>) X n1 n2 =
           NoisyDQN_forward m X n1 n2"
  using assms by (simp add: NoisyDQN_forward_def NoisyLinear_forward_def split: sum.splits)

theorem noisy_eval_means_only_witness:
  "\<not> training (a1 (toy_noisy False)) \<and> \<not> training (a2 (toy_noisy False)) \<and>
   NoisyDQN_forward (toy_noisy False) [0, 0] ([[1, 2], [3, 4]], [5, 6]) ([[7, 8]], [9]) = Inr [3] \<and>
   NoisyDQN_forward (toy_noisy False) [0, 0] ([[0, 0], [0, 0]], [0, 0]) ([[0, 0]], [0]) = Inr [3] \<and>
   NoisyDQN_forward
     ((toy_noisy False)\<lparr>a1 := (a1 (toy_noisy False))\<lparr>w_sigma := [[9, 9], [9, 9]],
                                                    b_sigma := [9, 9]\<rparr>,
        a2 := (a2 (toy_noisy False))\<lparr>w_sigma := [[9, 9]], b_sigma := [9]\<rparr>\<rparr>)
     [0, 0] ([[1, 2], [3, 4]], [5, 6]) ([[7, 8]], [9]) = Inr [3]"
proof -
  have t: "\<not> training (a1 (toy_noisy False))" "\<not> training (a2 (toy_noisy False))"
    by (simp_all add: toy_noisy_def)
  have e: "(case F_linear [0, 0] (w_mu (a1 (toy_noisy False))) (b_mu (a1 (toy_noisy False))) of
              Inl e \<Rightarrow> Inl e
            | Inr out \<Rightarrow> F_linear (map tanh out) (w_mu (a2 (toy_noisy False)))
                (b_mu (a2 (toy_noisy False)))) = Inr [3]"
    by (simp add: toy_noisy_def F_linear_def dot_def)
  from noisy_eval_means_only[OF t, of "[0, 0]"] e t show ?thesis by simp
qed

subsection \<open>Trigger steps and resets\<close>

lemma count_step_unfinished:
  assumes "\<not> truncated s" "step_count s + 1 < max_steps s"
  shows "\<not> terminated (count_step s r) \<and> \<not> truncated (count_step s r) \<and>
         num_episodes (count_step s r) = num_episodes s"
  using assms by (simp add: count_step_def Let_def)

lemma apply_action_trigger:
  "apply_action E s 8 = (Inl e, s2) \<Longrightarrow> s2 = s"
  "apply_action E s 8 = (Inr r, s2) \<Longrightarrow> s2 = s\<lparr>terminated := True\<rparr>"
  by (auto simp: apply_action_def split: sum.splits)

text \<open>
  C1 (what the code does instead). A trigger step that starts with \<^verbatim>\<open>truncated\<close> unset
  and at least two steps below \<^verbatim>\<open>max_steps\<close> never returns \<^verbatim>\<open>terminated == True\<close>:
  whatever the collaborators do, if it returns, both returned flags are False, because
  the re-evaluation under \<^verbatim>\<open>not self.terminated or not self.truncated\<close> overwrites the
  flag the trigger branch has just set; and an object that was not terminated before is
  not terminated after.
\<close>

theorem trigger_termination_overwritten:
  assumes "\<not> truncated s" and "step_count s + 1 < max_steps s"
  shows "(fst (step E s 8) = Inr (ob, r, t, tr, i) \<longrightarrow> \<not> t \<and> \<not> tr) \<and>
         (\<not> terminated s \<longrightarrow> \<not> terminated (snd (step E s 8)))"
proof -
  obtain h where h: "snd (update_history E s 8) = s\<lparr>heap := h\<rparr>"
    using update_history_frame by blast
  obtain u where u: "update_history E s 8 = (u, s\<lparr>heap := h\<rparr>)"
    using h by (cases "update_history E s 8") auto
  let ?s1 = "s\<lparr>heap := h\<rparr>"
  obtain a s2 where a: "apply_action E ?s1 8 = (a, s2)"
    by (cases "apply_action E ?s1 8")
  let ?s2 = "?s1\<lparr>terminated := True\<rparr>"
  have c: "\<not> terminated (count_step ?s2 x) \<and> \<not> truncated (count_step ?s2 x)" for x
    using count_step_unfinished[of ?s2 x] assms by simp
  show ?thesis
  proof (cases u)
    case (Inl e)
    then show ?thesis by (simp add: step_def u)
  next
    case (Inr v)
    show ?thesis
    proof (cases a)
      case (Inl e)
      with a have "s2 = ?s1" using apply_action_trigger(1) by blast
      with Inl a Inr show ?thesis by (simp add: step_def u)
    next
      case (Inr x)
      with a have "s2 = ?s2" using apply_action_trigger(2) by blast
      with Inr a \<open>u = Inr v\<close> c[of x] show ?thesis
        by (simp add: step_def u Let_def split: sum.splits)
    qed
  qed
qed


lemma apply_action_trigger_fresh:
  assumes "iou E = iou_std" "bbox s = (0, 0, 100, 100)" "target_box s = (10, 10, 90, 90)"
    "threshold s = 1/2"
  shows "apply_action E s 8 = (Inr (nu s), s\<lparr>terminated := True\<rparr>)"
  using assms
  by (simp add: apply_action_def calculate_trigger_reward_def box_area_def
      intersection_area_def Let_def)

lemma step_trigger_fresh:
  "\<exists>ob i. step ext_lenient (fresh_env ms al) 8 =
     (Inr (ob, 3,
           terminated (count_step ((fresh_env ms al)\<lparr>heap := (heap (fresh_env ms al))
                (0 := (replicate 9 0)[8 := 1]), terminated := True\<rparr>) 3),
           truncated (count_step ((fresh_env ms al)\<lparr>heap := (heap (fresh_env ms al))
                (0 := (replicate 9 0)[8 := 1]), terminated := True\<rparr>) 3), i),
      count_step ((fresh_env ms al)\<lparr>heap := (heap (fresh_env ms al))
                (0 := (replicate 9 0)[8 := 1]), terminated := True\<rparr>) 3)"
proof -
  let ?s = "fresh_env ms al"
  let ?s1 = "?s\<lparr>heap := (heap ?s)(0 := (replicate 9 0)[8 := 1])\<rparr>"
  have u: "update_history ext_lenient ?s 8 = (Inr (replicate 20 0), ?s1)"
    using update_history_lenient_fresh[of ?s 0 8] by (simp add: fresh_hist)
  have "apply_action ext_lenient ?s1 8 = (Inr (nu ?s1), ?s1\<lparr>terminated := True\<rparr>)"
    by (rule apply_action_trigger_fresh) (simp_all add: ext_lenient_def fresh_env_def)
  then have a: "apply_action ext_lenient ?s1 8 = (Inr 3, ?s1\<lparr>terminated := True\<rparr>)"
    by (simp add: fresh_env_def)
  let ?s5 = "count_step (?s1\<lparr>terminated := True\<rparr>) 3"
  have c: "feature_extractor ?s5 = toy_extractor"
    by (simp add: count_step_def fresh_env_def Let_def)
  obtain i r where gi: "get_info ext_lenient ?s5 = Inr \<lparr>info_env = ?s5, info_iou = i, info_recall = r\<rparr>"
    using get_info_std[of ext_lenient ?s5] by (auto simp: ext_lenient_def)
  show ?thesis
    using step_returns[OF u a get_state_lenient[OF c] gi] by simp
qed

lemma step_strict_fresh: "action < 9 \<Longrightarrow> step ext_strict s action = (Inl TypeError, s)"
  by (rule step_raises_in_history) (rule update_history_strict)

theorem trigger_termination_overwritten_witness:
  "\<not> truncated (fresh_env 500 (1/5)) \<and>
   step_count (fresh_env 500 (1/5)) + 1 < max_steps (fresh_env 500 (1/5)) \<and>
   (\<exists>ob i. fst (step ext_lenient (fresh_env 500 (1/5)) 8) = Inr (ob, 3, False, False, i)) \<and>
   \<not> terminated (snd (step ext_lenient (fresh_env 500 (1/5)) 8)) \<and>
   step ext_strict (fresh_env 500 (1/5)) 8 = (Inl TypeError, fresh_env 500 (1/5))"
proof -
  let ?s = "fresh_env 500 (1/5)"
  have p: "\<not> truncated ?s" "step_count ?s + 1 < max_steps ?s" "\<not> terminated ?s"
    by (simp_all add: fresh_env_def)
  obtain ob t tr i where
    r: "fst (step ext_lenient ?s 8) = Inr (ob, 3, t, tr, i)"
    using step_trigger_fresh[of 500 "1/5"] by auto
  from trigger_termination_overwritten[OF p(1,2), of ext_lenient ob 3 t tr i] r p(3)
  have "\<not> t" "\<not> tr" "\<not> terminated (snd (step ext_lenient ?s 8))" by auto
  with r p step_strict_fresh[of 8 ?s] show ?thesis by auto
qed

lemma finished_env_eq:
  "finished_env = count_step ((fresh_env 1 (1/5))\<lparr>heap := (heap (fresh_env 1 (1/5)))
                (0 := (replicate 9 0)[8 := 1]), terminated := True\<rparr>) 3"
  using step_trigger_fresh[of 1 "1/5"] by (auto simp: finished_env_def)

lemma finished_env_fields:
  "terminated finished_env" "truncated finished_env" "num_episodes finished_env = 1"
  "step_count finished_env = 1" "cumulative_reward finished_env = 3"
  by (simp_all add: finished_env_eq count_step_def fresh_env_def Let_def)

lemma reset_fields:
  assumes "shape im = h # w # rest"
  shows "bbox (snd (reset E s im oim tb ms al n th fe ts)) = (0, 0, real w, real h)"
    "step_count (snd (reset E s im oim tb ms al n th fe ts)) = 0"
    "cumulative_reward (snd (reset E s im oim tb ms al n th fe ts)) = 0"
    "\<not> truncated (snd (reset E s im oim tb ms al n th fe ts))"
    "actions_history (snd (reset E s im oim tb ms al n th fe ts)) = replicate 20 (next_addr s)"
    "heap (snd (reset E s im oim tb ms al n th fe ts)) (next_addr s) = replicate 9 100"
    "num_episodes (snd (reset E s im oim tb ms al n th fe ts)) = 0"
    "terminated (snd (reset E s im oim tb ms al n th fe ts)) = terminated s"
  using assms by (simp_all add: reset_def Let_def split: sum.splits)

text \<open>
  C6 (what the code does instead). \<^verbatim>\<open>reset\<close> on an image of at least two dimensions
  sets the box to the full image, zeroes the step count and the cumulative reward,
  clears \<^verbatim>\<open>truncated\<close> and makes every history row the sentinel row; it never assigns
  \<^verbatim>\<open>terminated\<close>, which keeps the value it had before the call.
\<close>

theorem reset_keeps_terminated:
  assumes "shape im = h # w # rest"
  shows "bbox (snd (reset E s im oim tb ms al n th fe ts)) = (0, 0, real w, real h) \<and>
    step_count (snd (reset E s im oim tb ms al n th fe ts)) = 0 \<and>
    cumulative_reward (snd (reset E s im oim tb ms al n th fe ts)) = 0 \<and>
    \<not> truncated (snd (reset E s im oim tb ms al n th fe ts)) \<and>
    rows (snd (reset E s im oim tb ms al n th fe ts)) = replicate 20 (replicate 9 100) \<and>
    terminated (snd (reset E s im oim tb ms al n th fe ts)) = terminated s"
  using reset_fields[OF assms, of E s oim tb ms al n th fe ts]
  by (simp add: rows_aliased)

theorem reset_keeps_terminated_witness:
  "shape img100 = [100, 100] \<and> terminated finished_env \<and>
   terminated (snd (reset ext_lenient finished_env img100 img100 (10, 10, 90, 90) 500 (1/5) 3
                      (1/2) toy_extractor (2, 2))) \<and>
   \<not> truncated (snd (reset ext_lenient finished_env img100 img100 (10, 10, 90, 90) 500 (1/5) 3
                      (1/2) toy_extractor (2, 2))) \<and>
   (\<exists>ob. fst (reset ext_lenient finished_env img100 img100 (10, 10, 90, 90) 500 (1/5) 3
                      (1/2) toy_extractor (2, 2)) = Inr ob)"
proof -
  let ?r = "reset ext_lenient finished_env img100 img100 (10, 10, 90, 90) 500 (1/5) 3
                      (1/2) toy_extractor (2, 2)"
  have "\<exists>ob. fst ?r = Inr ob"
    by (simp add: reset_def shape_img100 Let_def ext_lenient_def toy_transform_input_def
        get_state_def get_features_def toy_extractor_def)
  with reset_keeps_terminated[OF shape_img100, of ext_lenient finished_env img100
      "(10, 10, 90, 90)" 500 "1/5" 3 "1/2" toy_extractor "(2, 2)"]
    shape_img100 finished_env_fields(1)
  show ?thesis by simp
qed

subsection \<open>Episode counter\<close>

lemma count_step_num_episodes:
  "num_episodes (count_step s r) = num_episodes s \<or>
   num_episodes (count_step s r) = num_episodes s + 1 \<and>
     (terminated (count_step s r) \<or> truncated (count_step s r))"
  by (simp add: count_step_def Let_def)

lemma apply_action_num_episodes:
  "num_episodes (snd (apply_action E s action)) = num_episodes s"
  by (simp add: apply_action_def Let_def split: sum.splits)

lemma update_history_num_episodes:
  "num_episodes (snd (update_history E s action)) = num_episodes s"
  using update_history_frame[of E s action] by (auto simp del: fun_upd_apply)

lemma step_num_episodes:
  "num_episodes (snd (step E s action)) = num_episodes s \<or>
   num_episodes (snd (step E s action)) = num_episodes s + 1 \<and>
     (terminated (snd (step E s action)) \<or> truncated (snd (step E s action)))"
proof -
  let ?s2 = "snd (apply_action E (snd (update_history E s action)) action)"
  have n: "num_episodes ?s2 = num_episodes s"
    by (simp add: apply_action_num_episodes update_history_num_episodes)
  from step_post[of E s action] consider
    "snd (step E s action) = snd (update_history E s action)"
    | "snd (step E s action) = ?s2"
    | r where "snd (step E s action) = count_step ?s2 r"
    by blast
  then show ?thesis
  proof cases
    case 1
    then show ?thesis by (simp add: update_history_num_episodes)
  next
    case 2
    then show ?thesis by (simp add: n)
  next
    case 3
    with count_step_num_episodes[of ?s2 r] n show ?thesis by simp
  qed
qed

lemma init_num_episodes:
  "init E im oim tb ms al n th fe ts = Inr s \<Longrightarrow> num_episodes s = 0"
  by (auto simp: init_def Let_def split: list.splits sum.splits)

text \<open>
  C5, as stated, fails: after an episode has ended the counter is 1, and \<^verbatim>\<open>reset\<close>
  (line 357, \<^verbatim>\<open>self.num_episodes = 0\<close>) puts it back to 0.
\<close>

theorem reset_zeroes_num_episodes_counterexample:
  "num_episodes finished_env = 1 \<and>
   num_episodes (snd (reset ext_lenient finished_env img100 img100 (10, 10, 90, 90) 500 (1/5) 3
                        (1/2) toy_extractor (2, 2))) = 0 \<and>
   num_episodes (snd (reset ext_lenient finished_env img100 img100 (10, 10, 90, 90) 500 (1/5) 3
                        (1/2) toy_extractor (2, 2))) \<noteq> num_episodes finished_env"
  using reset_fields(7)[OF shape_img100] by (simp add: finished_env_fields)

text \<open>
  C5, amended. Construction yields \<open>num_episodes = 0\<close>; \<^verbatim>\<open>reset\<close> on an image of at
  least two dimensions sets it to 0 again; \<^verbatim>\<open>step\<close> leaves it unchanged or adds exactly
  one, and adds one only when it ends with \<^verbatim>\<open>terminated\<close> or \<^verbatim>\<open>truncated\<close> set;
  \<^verbatim>\<open>update_history\<close> does not change it.
\<close>

theorem num_episodes_lifecycle:
  "(init E im oim tb ms al n th fe ts = Inr s0 \<longrightarrow> num_episodes s0 = 0) \<and>
   (2 \<le> length (shape im) \<longrightarrow>
      num_episodes (snd (reset E s im oim tb ms al n th fe ts)) = 0) \<and>
   (num_episodes (snd (step E s action)) = num_episodes s \<or>
    num_episodes (snd (step E s action)) = num_episodes s + 1 \<and>
      (terminated (snd (step E s action)) \<or> truncated (snd (step E s action)))) \<and>
   num_episodes (snd (update_history E s action)) = num_episodes s"
proof -
  have "num_episodes (snd (reset E s im oim tb ms al n th fe ts)) = 0"
    if "2 \<le> length (shape im)"
  proof -
    from that obtain h w rest where "shape im = h # w # rest"
      by (cases "shape im"; cases "tl (shape im)") auto
    then show ?thesis by (rule reset_fields(7))
  qed
  with init_num_episodes[of E im oim tb ms al n th fe ts s0] step_num_episodes[of E s action]
    update_history_num_episodes[of E s action]
  show ?thesis by blast
qed

theorem num_episodes_lifecycle_witness:
  "init ext_lenient img100 img100 (10, 10, 90, 90) 1 (1/5) 3 (1/2) toy_extractor (2, 2)
      = Inr (fresh_env 1 (1/5)) \<and>
   num_episodes (fresh_env 1 (1/5)) = 0 \<and>
   2 \<le> length (shape img100) \<and>
   num_episodes (snd (reset ext_lenient finished_env img100 img100 (10, 10, 90, 90) 1 (1/5) 3
                        (1/2) toy_extractor (2, 2))) = 0 \<and>
   num_episodes (snd (step ext_lenient (fresh_env 1 (1/5)) 8)) = num_episodes (fresh_env 1 (1/5)) + 1 \<and>
   terminated (snd (step ext_lenient (fresh_env 1 (1/5)) 8))"
proof -
  have l: "2 \<le> length (shape img100)" by (simp add: shape_img100)
  have f: "snd (step ext_lenient (fresh_env 1 (1/5)) 8) = finished_env"
    by (simp add: finished_env_def)
  have z: "num_episodes (fresh_env 1 (1/5)) = 0" by (simp add: fresh_env_def)
  note a = num_episodes_lifecycle[where E = ext_lenient and im = img100 and oim = img100
      and tb = "(10, 10, 90, 90)" and ms = 1 and al = "1/5" and n = 3 and th = "1/2"
      and fe = toy_extractor and ts = "(2, 2)" and ?s0.0 = "fresh_env 1 (1/5)"
      and action = 8]
  from a[where s = finished_env] a[where s = "fresh_env 1 (1/5)"]
    init_fresh[of 1 "1/5"] l f z finished_env_fields
  show ?thesis by simp
qed

subsection \<open>Reward of a geometric step\<close>

lemma update_history_target:
  "target_box (snd (update_history E s action)) = target_box s"
  using update_history_frame[of E s action] by (auto simp del: fun_upd_apply)

lemma transform_action_after_history:
  "transform_action (snd (update_history E s action)) action = transform_action s action"
  using update_history_frame[of E s action] by (auto simp: transform_action_heap simp del: fun_upd_apply)

lemma apply_action_geometric:
  assumes "action < 8"
  shows "apply_action E s1 action =
     (calculate_reward E (Env_object (s1\<lparr>bbox := transform_action s1 action\<rparr>))
        (Box (transform_action s1 action)) (Box (target_box s1)),
      s1\<lparr>bbox := transform_action s1 action\<rparr>)"
  using assms by (simp add: apply_action_def Let_def)

lemma step_reward_is:
  assumes "fst (step E s action) = Inr (ob, r, t, tr, i)"
  shows "\<exists>u. fst (update_history E s action) = Inr u \<and>
     fst (apply_action E (snd (update_history E s action)) action) = Inr r"
  using assms by (auto simp: step_def Let_def split: sum.splits prod.splits)

lemma step_reward_raises:
  assumes "fst (apply_action E (snd (update_history E s action)) action) = Inl e"
  shows "\<exists>e'. fst (step E s action) = Inl e'"
  using assms by (auto simp: step_def Let_def split: sum.splits prod.splits)

text \<open>
  C2 (what the code does instead). For a geometric action, a reward that \<^verbatim>\<open>step\<close>
  returns is \<^verbatim>\<open>calculate_reward\<close> of the environment object, the box after the
  transform and the target: the box held before the transform is not an argument. With
  an \<^verbatim>\<open>iou\<close> that rejects the environment object, no geometric step returns at all.
\<close>

theorem geometric_reward_arguments:
  assumes "action < 8"
  shows "(fst (step E s action) = Inr (ob, r, t, tr, i) \<longrightarrow>
            calculate_reward E
              (Env_object ((snd (update_history E s action))\<lparr>bbox := transform_action s action\<rparr>))
              (Box (transform_action s action)) (Box (target_box s)) = Inr r) \<and>
         ((\<forall>s' b. iou E (Env_object s') b = Inl TypeError) \<longrightarrow>
            (\<exists>e. fst (step E s action) = Inl e))"
proof -
  let ?s1 = "snd (update_history E s action)"
  have a: "apply_action E ?s1 action =
     (calculate_reward E (Env_object (?s1\<lparr>bbox := transform_action s action\<rparr>))
        (Box (transform_action s action)) (Box (target_box s)),
      ?s1\<lparr>bbox := transform_action s action\<rparr>)"
    using apply_action_geometric[OF assms, of E ?s1]
    by (simp add: transform_action_after_history update_history_target)
  have 1: "calculate_reward E (Env_object (?s1\<lparr>bbox := transform_action s action\<rparr>))
        (Box (transform_action s action)) (Box (target_box s)) = Inr r"
    if "fst (step E s action) = Inr (ob, r, t, tr, i)"
    using step_reward_is[OF that] a by simp
  have 2: "\<exists>e. fst (step E s action) = Inl e"
    if "\<forall>s' b. iou E (Env_object s') b = Inl TypeError"
  proof -
    from that have "fst (apply_action E ?s1 action) = Inl TypeError"
      by (simp add: a calculate_reward_def)
    then show ?thesis by (rule step_reward_raises)
  qed
  from 1 2 show ?thesis by blast
qed

lemma iou_std_env: "iou ext_lenient (Env_object s') b = Inl TypeError"
  by (simp add: ext_lenient_def)

theorem geometric_reward_arguments_witness:
  "(5::nat) < 8 \<and>
   fst (step ext_lenient (fresh_env 500 (1/5)) 5) = Inl TypeError \<and>
   bbox (snd (step ext_lenient (fresh_env 500 (1/5)) 5)) = (20, 20, 80, 80) \<and>
   step_count (snd (step ext_lenient (fresh_env 500 (1/5)) 5)) = 0 \<and>
   calculate_reward ext_lenient (Box (20, 20, 80, 80)) (Box (0, 0, 100, 100))
     (Box (10, 10, 90, 90)) = Inr (- 1)"
proof -
  have "\<exists>e. fst (step ext_lenient (fresh_env 500 (1/5)) 5) = Inl e"
    using geometric_reward_arguments[of 5 ext_lenient "fresh_env 500 (1/5)"] iou_std_env
    by simp
  moreover have "fst (step ext_lenient (fresh_env 500 (1/5)) 5) = Inl TypeError"
    by (simp add: step_shrink_fresh)
  moreover have "bbox (snd (step ext_lenient (fresh_env 500 (1/5)) 5)) = (20, 20, 80, 80)"
    by (simp add: step_shrink_fresh transform_shrink_fresh)
  moreover have "step_count (snd (step ext_lenient (fresh_env 500 (1/5)) 5)) = 0"
    by (simp add: step_shrink_fresh) (simp add: fresh_env_def)
  moreover have "calculate_reward ext_lenient (Box (20, 20, 80, 80)) (Box (0, 0, 100, 100))
     (Box (10, 10, 90, 90)) = Inr (- 1)"
    by (simp add: calculate_reward_def ext_lenient_def box_area_def intersection_area_def Let_def)
  ultimately show ?thesis by simp
qed

subsection \<open>History\<close>

text \<open>
  C3 (what the code does instead). On a history of twenty references to one sentinel
  row, as \<^verbatim>\<open>__init__\<close> and \<^verbatim>\<open>reset\<close> build it, the count of nonzero entries is 180, not
  below 9: the first \<^verbatim>\<open>update_history\<close> call already takes the shift branch, after which
  every slot shows the one-hot row of the action. With torch as it is, the call raises
  TypeError and changes nothing.
\<close>

theorem first_push_shifts:
  assumes "actions_history s = replicate 20 a" "heap s a = replicate 9 100" "action < 9"
  shows "nonzero_len ext_lenient (rows s) = Inr 180 \<and>
         rows (snd (update_history ext_lenient s action)) =
           replicate 20 ((replicate 9 0)[action := 1]) \<and>
         update_history ext_strict s action = (Inl TypeError, s)"
  using assms
  by (simp add: update_history_lenient_fresh update_history_strict rows_aliased)
     (simp add: ext_lenient_def length_concat_replicate)

theorem first_push_shifts_witness:
  "actions_history (fresh_env 500 (1/5)) = replicate 20 0 \<and>
   heap (fresh_env 500 (1/5)) 0 = replicate 9 100 \<and> (3::nat) < 9 \<and>
   rows (snd (update_history ext_lenient (fresh_env 500 (1/5)) 3)) ! 0 = [0, 0, 0, 1, 0, 0, 0, 0, 0] \<and>
   rows (snd (update_history ext_lenient (fresh_env 500 (1/5)) 3)) ! 1 = [0, 0, 0, 1, 0, 0, 0, 0, 0] \<and>
   rows (snd (update_history ext_lenient (fresh_env 500 (1/5)) 3)) ! 19 = [0, 0, 0, 1, 0, 0, 0, 0, 0] \<and>
   fst (update_history ext_strict (fresh_env 500 (1/5)) 3) = Inl TypeError"
  using first_push_shifts[OF fresh_hist, of 3 500 "1/5"] fresh_hist[of 500 "1/5"]
  by (simp add: eval_nat_numeral)

subsection \<open>History rows\<close>




text \<open>The append branch of \<^verbatim>\<open>update_history\<close> is this assignment with the value 1.\<close>

lemma append_branch_is_set_entry:
  assumes "action < 9" "nonzero_len E (rows s) = Inr n" "n < 9"
  shows "update_history E s action =
     (case set_entry s n action 1 of
        Inl e \<Rightarrow> (Inl e, s)
      | Inr s' \<Rightarrow> (Inr (actions_history s'), s'))"
  using assms by (simp add: update_history_def set_entry_def Let_def)



subsection \<open>Observation length\<close>

lemma init_observation_space:
  assumes "init E im oim tb ms al n th fe ts = Inr s"
  shows "\<exists>features. get_features E s im = Inr features \<and> shape features \<noteq> [] \<and>
           observation_space s = hd (shape features) + 20 \<and>
           length (actions_history s) = 20 \<and> length (concat (rows s)) = 180"
  using assms
  by (auto simp: init_def Let_def get_features_def rows_def length_concat_replicate
      split: list.splits sum.splits)


lemma get_state_parts:
  assumes "get_state E s = Inr ob"
  shows "\<exists>img f flat. feature_extractor s img = Inr f \<and> view_flat E (rows s) = Inr flat \<and>
           data ob = data f @ flat \<and> shape ob = [1, length (data f) + length flat]"
  using assms
  by (fastforce simp: get_state_def get_features_def cat1_def view_1_m1_def split: sum.splits)

text \<open>
  C4 (what the code does instead). The declared observation length is \<^verbatim>\<open>shape[0]\<close> of
  the extractor's output plus \<^verbatim>\<open>len(self.actions_history)\<close>, which is 20, while the rows
  hold 180 entries; a vector that \<^verbatim>\<open>get_state\<close> returns is feature data followed by the
  flattened history.
\<close>

theorem observation_space_declared_length:
  assumes "init E im oim tb ms al n th fe ts = Inr s"
  shows "(\<exists>features. get_features E s im = Inr features \<and> shape features \<noteq> [] \<and>
            observation_space s = hd (shape features) + 20) \<and>
         length (actions_history s) = 20 \<and> length (concat (rows s)) = 180 \<and>
         (get_state E s = Inr ob \<longrightarrow>
            (\<exists>img f flat. feature_extractor s img = Inr f \<and> view_flat E (rows s) = Inr flat \<and>
               data ob = data f @ flat \<and> shape ob = [1, length (data f) + length flat]))"
  using init_observation_space[OF assms] get_state_parts[of E s ob] by blast

lemma fresh_extractor: "feature_extractor (fresh_env ms al) = toy_extractor"
  by (simp add: fresh_env_def)

lemma get_state_strict_fresh: "get_state ext_strict (fresh_env ms al) = Inl AttributeError"
  by (simp add: get_state_def get_features_def ext_strict_def toy_transform_input_def
      fresh_env_def toy_extractor_def)

theorem observation_space_declared_length_witness:
  "init ext_lenient img100 img100 (10, 10, 90, 90) 500 (1/5) 3 (1/2) toy_extractor (2, 2)
      = Inr (fresh_env 500 (1/5)) \<and>
   observation_space (fresh_env 500 (1/5)) = 21 \<and>
   (\<exists>ob. get_state ext_lenient (fresh_env 500 (1/5)) = Inr ob \<and> shape ob = [1, 184] \<and>
         length (data ob) = 184) \<and>
   get_state ext_strict (fresh_env 500 (1/5)) = Inl AttributeError"
proof -
  let ?s = "fresh_env 500 (1/5)"
  from observation_space_declared_length[OF init_fresh, of 500 "1/5"]
  have l: "length (concat (rows ?s)) = 180" by blast
  have o: "observation_space ?s = 21" by (simp add: fresh_env_def)
  have g: "\<exists>ob. get_state ext_lenient ?s = Inr ob \<and> shape ob = [1, 184] \<and> length (data ob) = 184"
    by (simp add: get_state_lenient[OF fresh_extractor] l)
  from init_fresh[of 500 "1/5"] o g get_state_strict_fresh[of 500 "1/5"] show ?thesis by blast
qed

end
